theory Spec2Isabelle
  imports Main "HOL-Library.Word" "HOL-Library.AList"
begin

section \<open>Astro: application lifecycle over a cluster orchestrator\<close>

text \<open>
  The development embeds three Go packages of the repository:
  \<^item> package \<open>k8s\<close>: the \<open>AppAdapter\<close> interface and its implementation
    \<open>ClientGoAdapter\<close> over the client-go API;
  \<^item> package \<open>repository\<close>: \<open>AppRepository\<close>, the GORM-backed record store;
  \<^item> package \<open>service\<close>: \<open>AppService\<close>, the lifecycle operations and the status
    synchronisation \<open>syncAppStatus\<close>.
  Go's \<open>int32\<close> is a 32-bit word read through \<open>sint\<close>; Go's \<open>int\<close> and \<open>uint\<close> hold
  record fields and identifiers whose overflow plays no role and are \<open>int\<close> and \<open>nat\<close>;
  the conversion \<open>int32(x)\<close> is \<open>word_of_int\<close>, which truncates as Go does.
\<close>

type_synonym int32 = "32 word"

type_synonym labels = "(string \<times> string) list"

subsection \<open>Package k8s: the objects the adapter reads\<close>

text \<open>
  The fields of \<open>appsv1.Deployment\<close> that the adapter reads or writes.
  \<open>Spec.Replicas\<close> is a pointer in Go (\<open>*int32\<close>): \<open>None\<close> is the nil pointer.
\<close>

record Deployment =
  Labels :: "(string \<times> string) list"
  Spec_Replicas :: "int32 option"
  Spec_Selector :: "(string \<times> string) list"
  Template_Labels :: "(string \<times> string) list"
  Template_Annotations :: "(string \<times> string) list option"
  Container_Name :: string
  Container_Image :: string
  Container_Ports :: "int32 list"
  Status_ReadyReplicas :: int32

text \<open>\<open>ClientGoAdapter.determineStatus\<close>: the four checks in the order of the source.\<close>

definition determineStatus :: "Deployment \<Rightarrow> string" where
  "determineStatus deployment =
     (if Spec_Replicas deployment = None \<or> Spec_Replicas deployment = Some 0 then ''stopped''
      else if Some (Status_ReadyReplicas deployment) = Spec_Replicas deployment then ''running''
      else if Status_ReadyReplicas deployment = 0 then ''pending''
      else ''starting'')"

subsection \<open>Errors\<close>

text \<open>
  The reasons of a client-go status error that the code distinguishes
  (\<open>metav1.StatusReason\<close>); every other failure of an API call, transport failures
  included, is \<open>StatusReasonOther\<close> with its text.
\<close>

datatype StatusReason =
    StatusReasonNotFound
  | StatusReasonAlreadyExists
  | StatusReasonInvalid
  | StatusReasonOther string

text \<open>
  The format strings of the adapter's \<open>fmt.Errorf\<close> calls, one constructor each, in the
  order of the source: namespace creation failed, Deployment creation failed, Service
  creation failed, Deployment deletion failed, Service deletion failed, Deployment fetch
  failed, replica update failed, Pod listing failed, Deployment restart failed, no running
  Pod found, log stream failed, log read failed. The source texts are Chinese.
\<close>

datatype errorf_format =
    FmtCreateNamespaceFailed
  | FmtCreateDeploymentFailed
  | FmtCreateServiceFailed
  | FmtDeleteDeploymentFailed
  | FmtDeleteServiceFailed
  | FmtGetDeploymentFailed
  | FmtUpdateReplicasFailed
  | FmtListPodsFailed
  | FmtRestartDeploymentFailed
  | FmtNoRunningPodFound
  | FmtGetLogStreamFailed
  | FmtReadLogFailed

text \<open>
  Go \<open>error\<close> values below the service: a status error of the API client, an error built by
  \<open>fmt.Errorf\<close> (with the error wrapped by \<open>%w\<close>, if the format has one),
  \<open>gorm.ErrRecordNotFound\<close>, any other failure of the database with its text, and a
  failure of \<open>io.Copy\<close> on a log stream.
\<close>

datatype go_error =
    StatusError StatusReason
  | Errorf errorf_format "go_error option"
  | ErrRecordNotFound
  | DBError string
  | IOError string

text \<open>
  \<open>errors.IsNotFound\<close> and \<open>errors.IsAlreadyExists\<close> of apimachinery look for a status
  error in the \<open>%w\<close> chain and test its reason.
\<close>

fun ReasonForError :: "go_error \<Rightarrow> StatusReason option" where
  "ReasonForError (StatusError r) = Some r"
| "ReasonForError (Errorf f (Some e)) = ReasonForError e"
| "ReasonForError (Errorf f None) = None"
| "ReasonForError ErrRecordNotFound = None"
| "ReasonForError (DBError m) = None"
| "ReasonForError (IOError m) = None"

definition IsNotFound :: "go_error \<Rightarrow> bool" where
  "IsNotFound err = (ReasonForError err = Some StatusReasonNotFound)"

definition IsAlreadyExists :: "go_error \<Rightarrow> bool" where
  "IsAlreadyExists err = (ReasonForError err = Some StatusReasonAlreadyExists)"

text \<open>
  Modelled from the spec: the codes \<open>errcode.ErrAppCreateFailed\<close> and
  \<open>errcode.ErrK8sOperation\<close>, which package \<open>service\<close> uses and \<open>errcode/code.go\<close> does
  not declare; they are the error kind the spec calls ClusterOperationFailed, taken here
  as two codes of their own. The other constructors are codes that \<open>errcode/code.go\<close>
  declares: the client codes, the application codes the service uses, the system codes.
\<close>

datatype Code =
    ErrBadRequest
  | ErrUnauthorized
  | ErrForbidden
  | ErrNotFound
  | ErrAppNotFound
  | ErrAppExists
  | ErrInternal
  | ErrDatabase
  | ErrK8s
  | ErrK8sConnect
  | ErrAppCreateFailed
  | ErrK8sOperation

text \<open>
  The text of an \<open>errcode.Error\<close> is either the default message of a code
  (\<open>code.Message()\<close>) or the text of a lower error (\<open>err.Error()\<close>); the model keeps what
  the text was taken from.
\<close>

datatype msg = Message Code | ErrorText go_error

record Error =
  Code :: Code
  Msg :: msg

definition New :: "Code \<Rightarrow> Error" where
  "New code = \<lparr>Code = code, Msg = Message code\<rparr>"

definition NewWithMsg :: "Code \<Rightarrow> msg \<Rightarrow> Error" where
  "NewWithMsg code m = \<lparr>Code = code, Msg = m\<rparr>"

text \<open>
  What a service operation returns as \<open>error\<close>: a \<open>*errcode.Error\<close>, or some other error
  handed through as it is.
\<close>

datatype service_error = Typed Error | Untyped go_error

text \<open>\<open>errcode.FromError\<close> on a non-nil error.\<close>

fun FromError :: "service_error \<Rightarrow> Error" where
  "FromError (Typed e) = e"
| "FromError (Untyped err) = \<lparr>Code = ErrInternal, Msg = ErrorText err\<rparr>"

text \<open>A call either returns or panics (a nil dereference).\<close>

datatype 'a outcome = Returned 'a | Panicked

subsection \<open>Package model and package repository: the record store\<close>

text \<open>
  \<open>model.App\<close>. The timestamps of \<open>BaseModel\<close> are left out: no operation below reads
  them. A soft-deleted row is invisible to every query of the repository, so deleting a
  row removes it from the rows the model keeps.
\<close>

record App =
  ID :: nat
  Name :: string
  Image :: string
  Replicas :: int
  Status :: string
  UserID :: nat
  Namespace :: string

text \<open>
  The database behind \<open>repository.DB\<close>: the visible rows of the table in primary-key
  order, the next auto-increment key, and the outcomes of the coming statements:
  \<open>Some text\<close> makes the next statement fail with that text and change nothing,
  \<open>None\<close> (or an exhausted list) lets it run.
\<close>

record store =
  rows :: "App list"
  next_id :: nat
  db_script :: "string option list"

definition DB_statement :: "store \<Rightarrow> string option \<times> store" where
  "DB_statement s =
     (case db_script s of
        [] \<Rightarrow> (None, s)
      | f # fs \<Rightarrow> (f, s\<lparr>db_script := fs\<rparr>))"

text \<open>
  GORM fills a zero-valued field that carries a \<open>default\<close> tag with that default when it
  inserts a row, in the table and in the struct passed in: \<open>Replicas\<close> has \<open>default:1\<close>
  and \<open>Status\<close> has \<open>default:stopped\<close>.
\<close>

definition gorm_defaults :: "App \<Rightarrow> App" where
  "gorm_defaults app =
     app\<lparr>Replicas := (if Replicas app = 0 then 1 else Replicas app),
         Status := (if Status app = [] then ''stopped'' else Status app)\<rparr>"

text \<open>
  \<open>AppRepository.Create\<close>. Its only caller passes a record without a key, which gets the
  next auto-increment key; the record with the key filled in is handed back, as GORM
  writes it through the pointer.
\<close>

definition Create :: "store \<Rightarrow> App \<Rightarrow> (go_error option \<times> App) \<times> store" where
  "Create s app =
     (case DB_statement s of
        (Some m, s') \<Rightarrow> ((Some (DBError m), app), s')
      | (None, s') \<Rightarrow>
          (let app' = (gorm_defaults app)\<lparr>ID := next_id s'\<rparr>
           in ((None, app'), s'\<lparr>rows := rows s' @ [app'], next_id := Suc (next_id s')\<rparr>)))"

text \<open>\<open>AppRepository.Delete\<close>: deleting a key that has no row is not an error.\<close>

definition Delete :: "store \<Rightarrow> nat \<Rightarrow> go_error option \<times> store" where
  "Delete s i =
     (case DB_statement s of
        (Some m, s') \<Rightarrow> (Some (DBError m), s')
      | (None, s') \<Rightarrow> (None, s'\<lparr>rows := filter (\<lambda>a. ID a \<noteq> i) (rows s')\<rparr>))"

text \<open>\<open>AppRepository.GetByID\<close>: \<open>First\<close> fails with \<open>ErrRecordNotFound\<close> on no row.\<close>

definition GetByID :: "store \<Rightarrow> nat \<Rightarrow> (go_error + App) \<times> store" where
  "GetByID s i =
     (case DB_statement s of
        (Some m, s') \<Rightarrow> (Inl (DBError m), s')
      | (None, s') \<Rightarrow>
          (case find (\<lambda>a. ID a = i) (rows s') of
             None \<Rightarrow> (Inl ErrRecordNotFound, s')
           | Some a \<Rightarrow> (Inr a, s')))"

text \<open>\<open>AppRepository.GetByUserID\<close>.\<close>

definition GetByUserID :: "store \<Rightarrow> nat \<Rightarrow> (go_error + App list) \<times> store" where
  "GetByUserID s u =
     (case DB_statement s of
        (Some m, s') \<Rightarrow> (Inl (DBError m), s')
      | (None, s') \<Rightarrow> (Inr (filter (\<lambda>a. UserID a = u) (rows s')), s'))"

text \<open>\<open>AppRepository.GetByUserAndName\<close>: the first row of the user with that name.\<close>

definition GetByUserAndName :: "store \<Rightarrow> nat \<Rightarrow> string \<Rightarrow> (go_error + App) \<times> store" where
  "GetByUserAndName s u n =
     (case DB_statement s of
        (Some m, s') \<Rightarrow> (Inl (DBError m), s')
      | (None, s') \<Rightarrow>
          (case find (\<lambda>a. UserID a = u \<and> Name a = n) (rows s') of
             None \<Rightarrow> (Inl ErrRecordNotFound, s')
           | Some a \<Rightarrow> (Inr a, s')))"

text \<open>
  \<open>AppRepository.UpdateStatus\<close> and \<open>AppRepository.UpdateReplicas\<close>: an \<open>UPDATE\<close> of one
  column on the rows with that key; matching no row is not an error.
\<close>

definition UpdateStatus :: "store \<Rightarrow> nat \<Rightarrow> string \<Rightarrow> go_error option \<times> store" where
  "UpdateStatus s i status =
     (case DB_statement s of
        (Some m, s') \<Rightarrow> (Some (DBError m), s')
      | (None, s') \<Rightarrow>
          (None, s'\<lparr>rows := map (\<lambda>a. if ID a = i then a\<lparr>Status := status\<rparr> else a) (rows s')\<rparr>))"

definition UpdateReplicas :: "store \<Rightarrow> nat \<Rightarrow> int \<Rightarrow> go_error option \<times> store" where
  "UpdateReplicas s i replicas =
     (case DB_statement s of
        (Some m, s') \<Rightarrow> (Some (DBError m), s')
      | (None, s') \<Rightarrow>
          (None, s'\<lparr>rows := map (\<lambda>a. if ID a = i then a\<lparr>Replicas := replicas\<rparr> else a) (rows s')\<rparr>))"

subsection \<open>Package k8s: the adapter interface\<close>

record AppSpec =
  AppSpec_Name :: string
  AppSpec_Namespace :: string
  AppSpec_Image :: string
  AppSpec_Replicas :: int32
  AppSpec_Port :: int32
  AppSpec_Labels :: labels

record PodInfo =
  PodInfo_Name :: string
  PodInfo_Status :: string
  PodInfo_Ready :: bool

record AppStatus =
  AppStatus_Status :: string
  AppStatus_ReadyReplicas :: int32
  AppStatus_Replicas :: int32
  AppStatus_Pods :: "PodInfo list"

text \<open>
  The interface \<open>AppAdapter\<close>: an implementation is a record of its seven methods over a
  cluster state of its own type \<open>'c\<close>. A method takes the state and returns its Go result
  with the state it leaves: \<open>error\<close> is \<open>go_error option\<close>, \<open>(*AppStatus, error)\<close> is a
  sum, \<open>(string, error)\<close> a pair.
\<close>

record 'c AppAdapter =
  adapter_EnsureNamespace :: "'c \<Rightarrow> string \<Rightarrow> go_error option \<times> 'c"
  adapter_CreateApp :: "'c \<Rightarrow> AppSpec \<Rightarrow> go_error option \<times> 'c"
  adapter_DeleteApp :: "'c \<Rightarrow> string \<Rightarrow> string \<Rightarrow> go_error option \<times> 'c"
  adapter_ScaleApp :: "'c \<Rightarrow> string \<Rightarrow> string \<Rightarrow> int32 \<Rightarrow> go_error option \<times> 'c"
  adapter_GetAppStatus :: "'c \<Rightarrow> string \<Rightarrow> string \<Rightarrow> (go_error + AppStatus) outcome \<times> 'c"
  adapter_RestartApp :: "'c \<Rightarrow> string \<Rightarrow> string \<Rightarrow> go_error option \<times> 'c"
  adapter_GetAppLogs :: "'c \<Rightarrow> string \<Rightarrow> string \<Rightarrow> int \<Rightarrow> (string \<times> go_error option) \<times> 'c"

subsection \<open>The cluster behind client-go\<close>

text \<open>
  The part of the API server that the adapter talks to through the global \<open>Client\<close>:
  namespaces with their labels, Deployments and Services keyed by (namespace, name), the
  Pods of each namespace in the order a list call returns them, each with the lines of its
  log. \<open>api_script\<close> holds the failures of the coming client calls (\<open>Some err\<close>: the
  next call fails with \<open>err\<close> and changes nothing), \<open>now\<close> is what
  \<open>time.Now().Format(time.RFC3339)\<close> reads.
\<close>

record Service =
  Service_Labels :: labels
  Service_Selector :: labels
  Service_Port :: int32
  Service_TargetPort :: int32

record Pod =
  Pod_Name :: string
  Pod_Labels :: labels
  Pod_Phase :: string
  Pod_Conditions :: "(string \<times> string) list"
  Pod_Log :: "string list"

record k8s =
  namespaces :: "(string \<times> labels) list"
  deployments :: "((string \<times> string) \<times> Deployment) list"
  services :: "((string \<times> string) \<times> Service) list"
  pods :: "(string \<times> Pod) list"
  api_script :: "go_error option list"
  now :: string

definition api_call :: "k8s \<Rightarrow> go_error option \<times> k8s" where
  "api_call c =
     (case api_script c of
        [] \<Rightarrow> (None, c)
      | f # fs \<Rightarrow> (f, c\<lparr>api_script := fs\<rparr>))"

text \<open>\<open>Client.CoreV1().Namespaces()\<close>: \<open>Get\<close> and \<open>Create\<close>.\<close>

definition Namespaces_Get :: "k8s \<Rightarrow> string \<Rightarrow> (go_error + labels) \<times> k8s" where
  "Namespaces_Get c name =
     (case api_call c of
        (Some err, c') \<Rightarrow> (Inl err, c')
      | (None, c') \<Rightarrow>
          (case map_of (namespaces c') name of
             None \<Rightarrow> (Inl (StatusError StatusReasonNotFound), c')
           | Some ls \<Rightarrow> (Inr ls, c')))"

definition Namespaces_Create :: "k8s \<Rightarrow> string \<Rightarrow> labels \<Rightarrow> go_error option \<times> k8s" where
  "Namespaces_Create c name ls =
     (case api_call c of
        (Some err, c') \<Rightarrow> (Some err, c')
      | (None, c') \<Rightarrow>
          (case map_of (namespaces c') name of
             Some old \<Rightarrow> (Some (StatusError StatusReasonAlreadyExists), c')
           | None \<Rightarrow> (None, c'\<lparr>namespaces := namespaces c' @ [(name, ls)]\<rparr>)))"

text \<open>
  \<open>Client.AppsV1().Deployments(namespace)\<close>: \<open>Create\<close>, \<open>Get\<close>, \<open>Update\<close>,
  \<open>Delete\<close>. An object cannot be created in a namespace that does not exist.
\<close>

definition Deployments_Create ::
  "k8s \<Rightarrow> string \<Rightarrow> string \<Rightarrow> Deployment \<Rightarrow> go_error option \<times> k8s" where
  "Deployments_Create c namespace name d =
     (case api_call c of
        (Some err, c') \<Rightarrow> (Some err, c')
      | (None, c') \<Rightarrow>
          (if map_of (namespaces c') namespace = None
           then (Some (StatusError StatusReasonNotFound), c')
           else if map_of (deployments c') (namespace, name) \<noteq> None
           then (Some (StatusError StatusReasonAlreadyExists), c')
           else (None, c'\<lparr>deployments := deployments c' @ [((namespace, name), d)]\<rparr>)))"

definition Deployments_Get ::
  "k8s \<Rightarrow> string \<Rightarrow> string \<Rightarrow> (go_error + Deployment) \<times> k8s" where
  "Deployments_Get c namespace name =
     (case api_call c of
        (Some err, c') \<Rightarrow> (Inl err, c')
      | (None, c') \<Rightarrow>
          (case map_of (deployments c') (namespace, name) of
             None \<Rightarrow> (Inl (StatusError StatusReasonNotFound), c')
           | Some d \<Rightarrow> (Inr d, c')))"

definition Deployments_Update ::
  "k8s \<Rightarrow> string \<Rightarrow> string \<Rightarrow> Deployment \<Rightarrow> go_error option \<times> k8s" where
  "Deployments_Update c namespace name d =
     (case api_call c of
        (Some err, c') \<Rightarrow> (Some err, c')
      | (None, c') \<Rightarrow>
          (if map_of (deployments c') (namespace, name) = None
           then (Some (StatusError StatusReasonNotFound), c')
           else (None, c'\<lparr>deployments := AList.update (namespace, name) d (deployments c')\<rparr>)))"

definition Deployments_Delete :: "k8s \<Rightarrow> string \<Rightarrow> string \<Rightarrow> go_error option \<times> k8s" where
  "Deployments_Delete c namespace name =
     (case api_call c of
        (Some err, c') \<Rightarrow> (Some err, c')
      | (None, c') \<Rightarrow>
          (if map_of (deployments c') (namespace, name) = None
           then (Some (StatusError StatusReasonNotFound), c')
           else (None, c'\<lparr>deployments := AList.delete (namespace, name) (deployments c')\<rparr>)))"

text \<open>\<open>Client.CoreV1().Services(namespace)\<close>: \<open>Create\<close> and \<open>Delete\<close>.\<close>

definition Services_Create ::
  "k8s \<Rightarrow> string \<Rightarrow> string \<Rightarrow> Service \<Rightarrow> go_error option \<times> k8s" where
  "Services_Create c namespace name sv =
     (case api_call c of
        (Some err, c') \<Rightarrow> (Some err, c')
      | (None, c') \<Rightarrow>
          (if map_of (namespaces c') namespace = None
           then (Some (StatusError StatusReasonNotFound), c')
           else if map_of (services c') (namespace, name) \<noteq> None
           then (Some (StatusError StatusReasonAlreadyExists), c')
           else (None, c'\<lparr>services := services c' @ [((namespace, name), sv)]\<rparr>)))"

definition Services_Delete :: "k8s \<Rightarrow> string \<Rightarrow> string \<Rightarrow> go_error option \<times> k8s" where
  "Services_Delete c namespace name =
     (case api_call c of
        (Some err, c') \<Rightarrow> (Some err, c')
      | (None, c') \<Rightarrow>
          (if map_of (services c') (namespace, name) = None
           then (Some (StatusError StatusReasonNotFound), c')
           else (None, c'\<lparr>services := AList.delete (namespace, name) (services c')\<rparr>)))"

text \<open>
  \<open>Client.CoreV1().Pods(namespace)\<close>: \<open>List\<close> with the label selector
  \<open>app=name\<close>, and \<open>GetLogs(podName, TailLines).Stream\<close>, which delivers the last
  \<open>lines\<close> lines of the Pod's log, each ended by a line feed, and rejects a negative
  \<open>TailLines\<close>. \<open>copy_stream\<close> is \<open>io.Copy\<close> into the buffer, which may fail as well.
\<close>

definition Pods_List :: "k8s \<Rightarrow> string \<Rightarrow> string \<Rightarrow> (go_error + Pod list) \<times> k8s" where
  "Pods_List c namespace name =
     (case api_call c of
        (Some err, c') \<Rightarrow> (Inl err, c')
      | (None, c') \<Rightarrow>
          (Inr (map snd (filter (\<lambda>(ns, p). ns = namespace \<and> map_of (Pod_Labels p) ''app'' = Some name)
                           (pods c'))), c'))"

definition tail_lines :: "int \<Rightarrow> string list \<Rightarrow> string list" where
  "tail_lines n ls = drop (length ls - nat n) ls"

definition Pods_GetLogs_Stream ::
  "k8s \<Rightarrow> string \<Rightarrow> string \<Rightarrow> int \<Rightarrow> (go_error + string list) \<times> k8s" where
  "Pods_GetLogs_Stream c namespace podName lines =
     (case api_call c of
        (Some err, c') \<Rightarrow> (Inl err, c')
      | (None, c') \<Rightarrow>
          (case find (\<lambda>(ns, p). ns = namespace \<and> Pod_Name p = podName) (pods c') of
             None \<Rightarrow> (Inl (StatusError StatusReasonNotFound), c')
           | Some (ns, p) \<Rightarrow>
               (if lines < 0 then (Inl (StatusError StatusReasonInvalid), c')
                else (Inr (tail_lines lines (Pod_Log p)), c'))))"

definition copy_stream :: "k8s \<Rightarrow> string list \<Rightarrow> (go_error + string) \<times> k8s" where
  "copy_stream c stream =
     (case api_call c of
        (Some err, c') \<Rightarrow> (Inl err, c')
      | (None, c') \<Rightarrow> (Inr (concat (map (\<lambda>l. l @ [CHR 0x0A]) stream)), c'))"

subsection \<open>Package k8s: ClientGoAdapter\<close>

text \<open>\<open>ClientGoAdapter.EnsureNamespace\<close>: the error of \<open>Create\<close> is returned as it is.\<close>

definition ClientGoAdapter_EnsureNamespace :: "k8s \<Rightarrow> string \<Rightarrow> go_error option \<times> k8s" where
  "ClientGoAdapter_EnsureNamespace c namespace =
     (case Namespaces_Get c namespace of
        (Inr ns, c1) \<Rightarrow> (None, c1)
      | (Inl err, c1) \<Rightarrow>
          (if \<not> IsNotFound err then (Some err, c1)
           else Namespaces_Create c1 namespace [(''managed-by'', ''astro'')]))"

text \<open>
  The same method as the two client calls it makes, for runs in which the calls of
  several callers interleave: a caller is about to call \<open>Get\<close>, or has seen NotFound
  and is about to call \<open>Create\<close>, or has returned.
\<close>

datatype ensure_pc = AtGet | AtCreate | Done "go_error option"

fun EnsureNamespace_step :: "string \<Rightarrow> ensure_pc \<Rightarrow> k8s \<Rightarrow> ensure_pc \<times> k8s" where
  "EnsureNamespace_step namespace AtGet c =
     (case Namespaces_Get c namespace of
        (Inr ns, c1) \<Rightarrow> (Done None, c1)
      | (Inl err, c1) \<Rightarrow> (if \<not> IsNotFound err then (Done (Some err), c1) else (AtCreate, c1)))"
| "EnsureNamespace_step namespace AtCreate c =
     (case Namespaces_Create c namespace [(''managed-by'', ''astro'')] of
        (r, c1) \<Rightarrow> (Done r, c1))"
| "EnsureNamespace_step namespace (Done r) c = (Done r, c)"

text \<open>
  Two callers of \<open>EnsureNamespace\<close> on one cluster under a schedule: \<open>False\<close> lets the
  first caller make its next client call, \<open>True\<close> the second.
\<close>

fun EnsureNamespace_run ::
  "string \<Rightarrow> bool list \<Rightarrow> ensure_pc \<times> ensure_pc \<times> k8s \<Rightarrow> ensure_pc \<times> ensure_pc \<times> k8s" where
  "EnsureNamespace_run namespace [] st = st"
| "EnsureNamespace_run namespace (False # sched) (p, q, c) =
     (case EnsureNamespace_step namespace p c of
        (p', c') \<Rightarrow> EnsureNamespace_run namespace sched (p', q, c'))"
| "EnsureNamespace_run namespace (True # sched) (p, q, c) =
     (case EnsureNamespace_step namespace q c of
        (q', c') \<Rightarrow> EnsureNamespace_run namespace sched (p, q', c'))"

text \<open>\<open>ClientGoAdapter.CreateApp\<close>: namespace, Deployment, and a Service if a port is given.\<close>

definition ClientGoAdapter_CreateApp :: "k8s \<Rightarrow> AppSpec \<Rightarrow> go_error option \<times> k8s" where
  "ClientGoAdapter_CreateApp c spec =
     (case ClientGoAdapter_EnsureNamespace c (AppSpec_Namespace spec) of
        (Some err, c1) \<Rightarrow> (Some (Errorf FmtCreateNamespaceFailed (Some err)), c1)
      | (None, c1) \<Rightarrow>
          (let labels = fold (\<lambda>(k, v). AList.update k v) (AppSpec_Labels spec)
                          [(''app'', AppSpec_Name spec), (''managed-by'', ''astro'')];
               deployment =
                 \<lparr>Labels = labels,
                  Spec_Replicas = Some (AppSpec_Replicas spec),
                  Spec_Selector = [(''app'', AppSpec_Name spec)],
                  Template_Labels = labels,
                  Template_Annotations = None,
                  Container_Name = AppSpec_Name spec,
                  Container_Image = AppSpec_Image spec,
                  Container_Ports = (if 0 < sint (AppSpec_Port spec) then [AppSpec_Port spec] else []),
                  Status_ReadyReplicas = 0\<rparr>
           in (case Deployments_Create c1 (AppSpec_Namespace spec) (AppSpec_Name spec) deployment of
                 (Some err, c2) \<Rightarrow> (Some (Errorf FmtCreateDeploymentFailed (Some err)), c2)
               | (None, c2) \<Rightarrow>
                   (if 0 < sint (AppSpec_Port spec)
                    then
                      (let service =
                             \<lparr>Service_Labels = labels,
                              Service_Selector = [(''app'', AppSpec_Name spec)],
                              Service_Port = AppSpec_Port spec,
                              Service_TargetPort = AppSpec_Port spec\<rparr>
                       in (case Services_Create c2 (AppSpec_Namespace spec) (AppSpec_Name spec)
                                  service of
                             (Some err, c3) \<Rightarrow> (Some (Errorf FmtCreateServiceFailed (Some err)), c3)
                           | (None, c3) \<Rightarrow> (None, c3)))
                    else (None, c2)))))"

text \<open>\<open>ClientGoAdapter.DeleteApp\<close>: NotFound on either object is not an error.\<close>

definition ClientGoAdapter_DeleteApp :: "k8s \<Rightarrow> string \<Rightarrow> string \<Rightarrow> go_error option \<times> k8s" where
  "ClientGoAdapter_DeleteApp c name namespace =
     (case Deployments_Delete c namespace name of
        (r1, c1) \<Rightarrow>
          (if (case r1 of None \<Rightarrow> False | Some err \<Rightarrow> \<not> IsNotFound err)
           then (Some (Errorf FmtDeleteDeploymentFailed r1), c1)
           else
             (case Services_Delete c1 namespace name of
                (r2, c2) \<Rightarrow>
                  (if (case r2 of None \<Rightarrow> False | Some err \<Rightarrow> \<not> IsNotFound err)
                   then (Some (Errorf FmtDeleteServiceFailed r2), c2)
                   else (None, c2)))))"

text \<open>\<open>ClientGoAdapter.ScaleApp\<close>: fetch, set \<open>Spec.Replicas\<close>, write back.\<close>

definition ClientGoAdapter_ScaleApp ::
  "k8s \<Rightarrow> string \<Rightarrow> string \<Rightarrow> int32 \<Rightarrow> go_error option \<times> k8s" where
  "ClientGoAdapter_ScaleApp c name namespace replicas =
     (case Deployments_Get c namespace name of
        (Inl err, c1) \<Rightarrow> (Some (Errorf FmtGetDeploymentFailed (Some err)), c1)
      | (Inr deployment, c1) \<Rightarrow>
          (case Deployments_Update c1 namespace name
                  (deployment\<lparr>Spec_Replicas := Some replicas\<rparr>) of
             (Some err, c2) \<Rightarrow> (Some (Errorf FmtUpdateReplicasFailed (Some err)), c2)
           | (None, c2) \<Rightarrow> (None, c2)))"

text \<open>
  \<open>ClientGoAdapter.GetAppStatus\<close>. An absent Deployment is the status \<open>unknown\<close> and no
  error. \<open>*deployment.Spec.Replicas\<close> is dereferenced without a nil check: a nil pointer
  panics, after \<open>determineStatus\<close> has run.
\<close>

definition ClientGoAdapter_GetAppStatus ::
  "k8s \<Rightarrow> string \<Rightarrow> string \<Rightarrow> (go_error + AppStatus) outcome \<times> k8s" where
  "ClientGoAdapter_GetAppStatus c name namespace =
     (case Deployments_Get c namespace name of
        (Inl err, c1) \<Rightarrow>
          (if IsNotFound err
           then (Returned (Inr \<lparr>AppStatus_Status = ''unknown'', AppStatus_ReadyReplicas = 0,
                                AppStatus_Replicas = 0, AppStatus_Pods = []\<rparr>), c1)
           else (Returned (Inl (Errorf FmtGetDeploymentFailed (Some err))), c1))
      | (Inr deployment, c1) \<Rightarrow>
          (case Pods_List c1 namespace name of
             (Inl err, c2) \<Rightarrow> (Returned (Inl (Errorf FmtListPodsFailed (Some err))), c2)
           | (Inr items, c2) \<Rightarrow>
               (let podInfos =
                      map (\<lambda>pod. \<lparr>PodInfo_Name = Pod_Name pod, PodInfo_Status = Pod_Phase pod,
                                  PodInfo_Ready =
                                    list_ex (\<lambda>(t, v). t = ''Ready'' \<and> v = ''True'')
                                      (Pod_Conditions pod)\<rparr>) items;
                    status = determineStatus deployment
                in (case Spec_Replicas deployment of
                      None \<Rightarrow> (Panicked, c2)
                    | Some replicas \<Rightarrow>
                        (Returned (Inr \<lparr>AppStatus_Status = status,
                                        AppStatus_ReadyReplicas = Status_ReadyReplicas deployment,
                                        AppStatus_Replicas = replicas,
                                        AppStatus_Pods = podInfos\<rparr>), c2)))))"

text \<open>\<open>ClientGoAdapter.RestartApp\<close>: stamp the Pod template, write back.\<close>

definition ClientGoAdapter_RestartApp :: "k8s \<Rightarrow> string \<Rightarrow> string \<Rightarrow> go_error option \<times> k8s" where
  "ClientGoAdapter_RestartApp c name namespace =
     (case Deployments_Get c namespace name of
        (Inl err, c1) \<Rightarrow> (Some (Errorf FmtGetDeploymentFailed (Some err)), c1)
      | (Inr deployment, c1) \<Rightarrow>
          (let annotations =
                 (case Template_Annotations deployment of None \<Rightarrow> [] | Some a \<Rightarrow> a);
               deployment' =
                 deployment\<lparr>Template_Annotations :=
                   Some (AList.update ''kubectl.kubernetes.io/restartedAt'' (now c1) annotations)\<rparr>
           in (case Deployments_Update c1 namespace name deployment' of
                 (Some err, c2) \<Rightarrow> (Some (Errorf FmtRestartDeploymentFailed (Some err)), c2)
               | (None, c2) \<Rightarrow> (None, c2))))"

text \<open>
  \<open>ClientGoAdapter.GetAppLogs\<close>: the log of \<open>pods.Items[0]\<close>; every failing path
  returns the empty string with its error.
\<close>

definition ClientGoAdapter_GetAppLogs ::
  "k8s \<Rightarrow> string \<Rightarrow> string \<Rightarrow> int \<Rightarrow> (string \<times> go_error option) \<times> k8s" where
  "ClientGoAdapter_GetAppLogs c name namespace lines =
     (case Pods_List c namespace name of
        (Inl err, c1) \<Rightarrow> (([], Some (Errorf FmtListPodsFailed (Some err))), c1)
      | (Inr items, c1) \<Rightarrow>
          (case items of
             [] \<Rightarrow> (([], Some (Errorf FmtNoRunningPodFound None)), c1)
           | pod # rest \<Rightarrow>
               (case Pods_GetLogs_Stream c1 namespace (Pod_Name pod) lines of
                  (Inl err, c2) \<Rightarrow> (([], Some (Errorf FmtGetLogStreamFailed (Some err))), c2)
                | (Inr stream, c2) \<Rightarrow>
                    (case copy_stream c2 stream of
                       (Inl err, c3) \<Rightarrow> (([], Some (Errorf FmtReadLogFailed (Some err))), c3)
                     | (Inr text, c3) \<Rightarrow> ((text, None), c3)))))"

text \<open>\<open>k8s.Adapter\<close>, the adapter \<open>NewAppService\<close> takes.\<close>

definition Adapter :: "k8s AppAdapter" where
  "Adapter =
     \<lparr>adapter_EnsureNamespace = ClientGoAdapter_EnsureNamespace,
      adapter_CreateApp = ClientGoAdapter_CreateApp,
      adapter_DeleteApp = ClientGoAdapter_DeleteApp,
      adapter_ScaleApp = ClientGoAdapter_ScaleApp,
      adapter_GetAppStatus = ClientGoAdapter_GetAppStatus,
      adapter_RestartApp = ClientGoAdapter_RestartApp,
      adapter_GetAppLogs = ClientGoAdapter_GetAppLogs\<rparr>"

subsection \<open>Package service: AppService\<close>

text \<open>
  What the service acts on: the database, the cluster behind its adapter, and the
  goroutines started by \<open>go s.syncAppStatus(...)\<close> that have not run yet, each with its
  arguments (application key, name, namespace).
\<close>

record 'c world =
  db :: store
  cluster :: 'c
  spawned :: "(nat \<times> string \<times> string) list"

record CreateAppRequest =
  Req_Name :: string
  Req_Image :: string
  Req_Replicas :: int
  Req_Port :: int
  Req_UserID :: nat

text \<open>The decimal digits of an unsigned number, as \<open>%d\<close> prints it.\<close>

fun decimal :: "nat \<Rightarrow> string" where
  "decimal n =
     (if n < 10 then [''0123456789'' ! n]
      else decimal (n div 10) @ [''0123456789'' ! (n mod 10)])"

declare decimal.simps [simp del]

text \<open>\<open>AppService.getAppWithPermission\<close>.\<close>

definition getAppWithPermission ::
  "'c world \<Rightarrow> nat \<Rightarrow> nat \<Rightarrow> (service_error + App) \<times> 'c world" where
  "getAppWithPermission w appID userID =
     (case GetByID (db w) appID of
        (Inl err, s) \<Rightarrow>
          (if err = ErrRecordNotFound then (Inl (Typed (New ErrAppNotFound)), w\<lparr>db := s\<rparr>)
           else (Inl (Typed (NewWithMsg ErrDatabase (ErrorText err))), w\<lparr>db := s\<rparr>))
      | (Inr app, s) \<Rightarrow>
          (if UserID app \<noteq> userID then (Inl (Typed (New ErrForbidden)), w\<lparr>db := s\<rparr>)
           else (Inr app, w\<lparr>db := s\<rparr>)))"

text \<open>
  \<open>AppService.syncAppStatus\<close>. It returns nothing; the results of the two updates are
  dropped (\<open>_ =\<close>). A panic of the status query passes through it.
\<close>

definition syncAppStatus ::
  "'c AppAdapter \<Rightarrow> 'c world \<Rightarrow> nat \<Rightarrow> string \<Rightarrow> string \<Rightarrow> unit outcome \<times> 'c world" where
  "syncAppStatus ad w appID name namespace =
     (case adapter_GetAppStatus ad (cluster w) name namespace of
        (Panicked, c) \<Rightarrow> (Panicked, w\<lparr>cluster := c\<rparr>)
      | (Returned (Inl err), c) \<Rightarrow> (Returned (), w\<lparr>cluster := c\<rparr>)
      | (Returned (Inr status), c) \<Rightarrow>
          (let s1 = snd (UpdateStatus (db w) appID (AppStatus_Status status));
               s2 = (if 0 < sint (AppStatus_Replicas status)
                     then snd (UpdateReplicas s1 appID (sint (AppStatus_Replicas status)))
                     else s1)
           in (Returned (), w\<lparr>db := s2, cluster := c\<rparr>)))"

text \<open>\<open>AppService.CreateApp\<close>.\<close>

definition CreateApp ::
  "'c AppAdapter \<Rightarrow> 'c world \<Rightarrow> CreateAppRequest \<Rightarrow> (service_error + App) \<times> 'c world" where
  "CreateApp ad w req =
     (case GetByUserAndName (db w) (Req_UserID req) (Req_Name req) of
        (Inr existing, s) \<Rightarrow> (Inl (Typed (New ErrAppExists)), w\<lparr>db := s\<rparr>)
      | (Inl err, s) \<Rightarrow>
          (if err \<noteq> ErrRecordNotFound
           then (Inl (Typed (NewWithMsg ErrDatabase (ErrorText err))), w\<lparr>db := s\<rparr>)
           else
             (let namespace = ''astro-user-'' @ decimal (Req_UserID req);
                  app = \<lparr>ID = 0, Name = Req_Name req, Image = Req_Image req,
                         Replicas = Req_Replicas req, Status = ''pending'',
                         UserID = Req_UserID req, Namespace = namespace\<rparr>
              in (case Create s app of
                    ((Some err, app'), s1) \<Rightarrow>
                      (Inl (Typed (NewWithMsg ErrDatabase (ErrorText err))), w\<lparr>db := s1\<rparr>)
                  | ((None, app'), s1) \<Rightarrow>
                      (let spec = \<lparr>AppSpec_Name = Req_Name req, AppSpec_Namespace = namespace,
                                    AppSpec_Image = Req_Image req,
                                    AppSpec_Replicas = word_of_int (Req_Replicas req),
                                    AppSpec_Port = word_of_int (Req_Port req),
                                    AppSpec_Labels = []\<rparr>
                       in (case adapter_CreateApp ad (cluster w) spec of
                             (Some err, c) \<Rightarrow>
                               (Inl (Typed (NewWithMsg ErrAppCreateFailed (ErrorText err))),
                                w\<lparr>db := snd (Delete s1 (ID app')), cluster := c\<rparr>)
                           | (None, c) \<Rightarrow>
                               (Inr app',
                                w\<lparr>db := s1, cluster := c,
                                  spawned := spawned w @ [(ID app', Name app', namespace)]\<rparr>)))))))"

text \<open>\<open>AppService.DeleteApp\<close>.\<close>

definition DeleteApp ::
  "'c AppAdapter \<Rightarrow> 'c world \<Rightarrow> nat \<Rightarrow> nat \<Rightarrow> service_error option \<times> 'c world" where
  "DeleteApp ad w appID userID =
     (case GetByID (db w) appID of
        (Inl err, s) \<Rightarrow>
          (if err = ErrRecordNotFound then (Some (Typed (New ErrAppNotFound)), w\<lparr>db := s\<rparr>)
           else (Some (Typed (NewWithMsg ErrDatabase (ErrorText err))), w\<lparr>db := s\<rparr>))
      | (Inr app, s) \<Rightarrow>
          (if UserID app \<noteq> userID then (Some (Typed (New ErrForbidden)), w\<lparr>db := s\<rparr>)
           else
             (case adapter_DeleteApp ad (cluster w) (Name app) (Namespace app) of
                (Some err, c) \<Rightarrow>
                  (Some (Typed (NewWithMsg ErrK8sOperation (ErrorText err))),
                   w\<lparr>db := s, cluster := c\<rparr>)
              | (None, c) \<Rightarrow>
                  (case Delete s appID of
                     (Some err, s1) \<Rightarrow>
                       (Some (Typed (NewWithMsg ErrDatabase (ErrorText err))),
                        w\<lparr>db := s1, cluster := c\<rparr>)
                   | (None, s1) \<Rightarrow> (None, w\<lparr>db := s1, cluster := c\<rparr>)))))"

text \<open>\<open>AppService.StartApp\<close>: the result of \<open>UpdateStatus\<close> is dropped (\<open>_ =\<close>).\<close>

definition StartApp ::
  "'c AppAdapter \<Rightarrow> 'c world \<Rightarrow> nat \<Rightarrow> nat \<Rightarrow> service_error option \<times> 'c world" where
  "StartApp ad w appID userID =
     (case getAppWithPermission w appID userID of
        (Inl err, w1) \<Rightarrow> (Some err, w1)
      | (Inr app, w1) \<Rightarrow>
          (let replicas = (if Replicas app = 0 then 1 else Replicas app)
           in (case adapter_ScaleApp ad (cluster w1) (Name app) (Namespace app)
                      (word_of_int replicas) of
                 (Some err, c) \<Rightarrow>
                   (Some (Typed (NewWithMsg ErrK8sOperation (ErrorText err))), w1\<lparr>cluster := c\<rparr>)
               | (None, c) \<Rightarrow>
                   (None,
                    w1\<lparr>db := snd (UpdateStatus (db w1) appID ''starting''), cluster := c,
                       spawned := spawned w1 @ [(appID, Name app, Namespace app)]\<rparr>))))"

text \<open>\<open>AppService.StopApp\<close>: the results of both updates are dropped.\<close>

definition StopApp ::
  "'c AppAdapter \<Rightarrow> 'c world \<Rightarrow> nat \<Rightarrow> nat \<Rightarrow> service_error option \<times> 'c world" where
  "StopApp ad w appID userID =
     (case getAppWithPermission w appID userID of
        (Inl err, w1) \<Rightarrow> (Some err, w1)
      | (Inr app, w1) \<Rightarrow>
          (case adapter_ScaleApp ad (cluster w1) (Name app) (Namespace app) 0 of
             (Some err, c) \<Rightarrow>
               (Some (Typed (NewWithMsg ErrK8sOperation (ErrorText err))), w1\<lparr>cluster := c\<rparr>)
           | (None, c) \<Rightarrow>
               (let s1 = snd (UpdateStatus (db w1) appID ''stopped'');
                    s2 = snd (UpdateReplicas s1 appID 0)
                in (None, w1\<lparr>db := s2, cluster := c\<rparr>))))"

text \<open>\<open>AppService.RestartApp\<close>.\<close>

definition RestartApp ::
  "'c AppAdapter \<Rightarrow> 'c world \<Rightarrow> nat \<Rightarrow> nat \<Rightarrow> service_error option \<times> 'c world" where
  "RestartApp ad w appID userID =
     (case getAppWithPermission w appID userID of
        (Inl err, w1) \<Rightarrow> (Some err, w1)
      | (Inr app, w1) \<Rightarrow>
          (case adapter_RestartApp ad (cluster w1) (Name app) (Namespace app) of
             (Some err, c) \<Rightarrow>
               (Some (Typed (NewWithMsg ErrK8sOperation (ErrorText err))), w1\<lparr>cluster := c\<rparr>)
           | (None, c) \<Rightarrow>
               (None,
                w1\<lparr>db := snd (UpdateStatus (db w1) appID ''restarting''), cluster := c,
                   spawned := spawned w1 @ [(appID, Name app, Namespace app)]\<rparr>)))"

text \<open>\<open>AppService.GetApps\<close>: one goroutine per record returned.\<close>

definition GetApps ::
  "'c world \<Rightarrow> nat \<Rightarrow> (service_error + App list) \<times> 'c world" where
  "GetApps w userID =
     (case GetByUserID (db w) userID of
        (Inl err, s) \<Rightarrow> (Inl (Typed (NewWithMsg ErrDatabase (ErrorText err))), w\<lparr>db := s\<rparr>)
      | (Inr apps, s) \<Rightarrow>
          (Inr apps,
           w\<lparr>db := s,
             spawned := spawned w @ map (\<lambda>app. (ID app, Name app, Namespace app)) apps\<rparr>))"

text \<open>
  \<open>AppService.GetApp\<close>: the synchronisation runs inside the call; the second
  \<open>GetByID\<close> is returned as it is, its error unwrapped.
\<close>

definition GetApp ::
  "'c AppAdapter \<Rightarrow> 'c world \<Rightarrow> nat \<Rightarrow> nat \<Rightarrow> (service_error + App) outcome \<times> 'c world" where
  "GetApp ad w appID userID =
     (case getAppWithPermission w appID userID of
        (Inl err, w1) \<Rightarrow> (Returned (Inl err), w1)
      | (Inr app, w1) \<Rightarrow>
          (case syncAppStatus ad w1 appID (Name app) (Namespace app) of
             (Panicked, w2) \<Rightarrow> (Panicked, w2)
           | (Returned u, w2) \<Rightarrow>
               (case GetByID (db w2) appID of
                  (Inl err, s) \<Rightarrow> (Returned (Inl (Untyped err)), w2\<lparr>db := s\<rparr>)
                | (Inr app', s) \<Rightarrow> (Returned (Inr app'), w2\<lparr>db := s\<rparr>))))"

text \<open>\<open>AppService.GetAppLogs\<close>.\<close>

definition GetAppLogs ::
  "'c AppAdapter \<Rightarrow> 'c world \<Rightarrow> nat \<Rightarrow> nat \<Rightarrow> int
     \<Rightarrow> (string \<times> service_error option) \<times> 'c world" where
  "GetAppLogs ad w appID userID lines =
     (case getAppWithPermission w appID userID of
        (Inl err, w1) \<Rightarrow> (([], Some err), w1)
      | (Inr app, w1) \<Rightarrow>
          (case adapter_GetAppLogs ad (cluster w1) (Name app) (Namespace app) lines of
             ((logs, Some err), c) \<Rightarrow>
               (([], Some (Typed (NewWithMsg ErrK8sOperation (ErrorText err)))),
                w1\<lparr>cluster := c\<rparr>)
           | ((logs, None), c) \<Rightarrow> ((logs, None), w1\<lparr>cluster := c\<rparr>)))"

subsection \<open>Vocabulary of the statements\<close>

text \<open>
  \<open>record_of s i\<close> is the row \<open>GetByID\<close> finds for the key \<open>i\<close>, \<open>record_named s u n\<close>
  the row \<open>GetByUserAndName\<close> finds for the user \<open>u\<close> and the name \<open>n\<close>;
  \<open>is_typed e\<close> says that the error is a \<open>*errcode.Error\<close>;
  \<open>carries_out n s\<close> says that the database does not fail any of its next \<open>n\<close>
  statements, \<open>api_carries_out n c\<close> that the API server does not fail any of the next
  \<open>n\<close> client calls.
\<close>

definition record_of :: "store \<Rightarrow> nat \<Rightarrow> App option" where
  "record_of s i = find (\<lambda>a. ID a = i) (rows s)"

definition record_named :: "store \<Rightarrow> nat \<Rightarrow> string \<Rightarrow> App option" where
  "record_named s u n = find (\<lambda>a. UserID a = u \<and> Name a = n) (rows s)"

fun is_typed :: "service_error \<Rightarrow> bool" where
  "is_typed (Typed e) = True"
| "is_typed (Untyped err) = False"

definition carries_out :: "nat \<Rightarrow> store \<Rightarrow> bool" where
  "carries_out n s = list_all (\<lambda>f. f = None) (take n (db_script s))"

definition api_carries_out :: "nat \<Rightarrow> k8s \<Rightarrow> bool" where
  "api_carries_out n c = list_all (\<lambda>f. f = None) (take n (api_script c))"

text \<open>
  A world to run the operations in: user 7 owns the application \<open>web\<close> with key 1, three
  replicas wanted and three ready, one of its Pods listed with a log of three lines.
\<close>

definition web_app :: App where
  "web_app = \<lparr>ID = 1, Name = ''web'', Image = ''x:1'', Replicas = 3, Status = ''running'',
              UserID = 7, Namespace = ''astro-user-7''\<rparr>"

definition web_deployment :: Deployment where
  "web_deployment =
     \<lparr>Labels = [(''app'', ''web''), (''managed-by'', ''astro'')],
      Spec_Replicas = Some 3,
      Spec_Selector = [(''app'', ''web'')],
      Template_Labels = [(''app'', ''web''), (''managed-by'', ''astro'')],
      Template_Annotations = None,
      Container_Name = ''web'',
      Container_Image = ''x:1'',
      Container_Ports = [],
      Status_ReadyReplicas = 3\<rparr>"

definition web_pod :: Pod where
  "web_pod = \<lparr>Pod_Name = ''web-1'', Pod_Labels = [(''app'', ''web'')], Pod_Phase = ''Running'',
              Pod_Conditions = [(''Ready'', ''True'')],
              Pod_Log = [''one'', ''two'', ''three'']\<rparr>"

definition empty_cluster :: k8s where
  "empty_cluster = \<lparr>namespaces = [], deployments = [], services = [], pods = [],
                    api_script = [], now = ''2024-01-01T00:00:00Z''\<rparr>"

definition web_cluster :: k8s where
  "web_cluster =
     \<lparr>namespaces = [(''astro-user-7'', [(''managed-by'', ''astro'')])],
      deployments = [((''astro-user-7'', ''web''), web_deployment)],
      services = [],
      pods = [(''astro-user-7'', web_pod)],
      api_script = [],
      now = ''2024-01-01T00:00:00Z''\<rparr>"

definition web_store :: store where
  "web_store = \<lparr>rows = [web_app], next_id = 2, db_script = []\<rparr>"

definition web_world :: "k8s world" where
  "web_world = \<lparr>db = web_store, cluster = web_cluster, spawned = []\<rparr>"

definition empty_world :: "k8s world" where
  "empty_world = \<lparr>db = \<lparr>rows = [], next_id = 1, db_script = []\<rparr>, cluster = empty_cluster,
                  spawned = []\<rparr>"

text \<open>
  An outage: the API server cannot be reached, and the database fails its third
  statement.
\<close>

definition outage_world :: "k8s world" where
  "outage_world =
     \<lparr>db = \<lparr>rows = [], next_id = 1, db_script = [None, None, Some ''connection lost'']\<rparr>,
      cluster = empty_cluster
        \<lparr>api_script := [Some (StatusError (StatusReasonOther ''connection refused''))]\<rparr>,
      spawned = []\<rparr>"

text \<open>
  The cluster of \<open>web_world\<close> after the Deployment was scaled to zero from outside, and
  the same cluster when the API server does not answer the next call.
\<close>

definition scaled_down_cluster :: k8s where
  "scaled_down_cluster =
     web_cluster\<lparr>deployments :=
       [((''astro-user-7'', ''web''), web_deployment\<lparr>Spec_Replicas := Some 0\<rparr>)]\<rparr>"

definition unreachable_cluster :: k8s where
  "unreachable_cluster =
     web_cluster\<lparr>api_script := [Some (StatusError (StatusReasonOther ''timeout''))]\<rparr>"

text \<open>The world after \<open>web\<close> was stopped: nothing wanted, nothing running.\<close>

definition stopped_cluster :: k8s where
  "stopped_cluster =
     web_cluster\<lparr>deployments :=
                   [((''astro-user-7'', ''web''),
                     web_deployment\<lparr>Spec_Replicas := Some 0, Status_ReadyReplicas := 0\<rparr>)],
                 pods := []\<rparr>"

definition stopped_world :: "k8s world" where
  "stopped_world =
     \<lparr>db = \<lparr>rows = [web_app\<lparr>Replicas := 0, Status := ''stopped''\<rparr>], next_id = 2,
            db_script = []\<rparr>,
      cluster = stopped_cluster,
      spawned = []\<rparr>"

text \<open>\<open>web_world\<close> with a database that fails its second and third statement.\<close>

definition flaky_world :: "k8s world" where
  "flaky_world =
     web_world\<lparr>db := web_store\<lparr>db_script := [None, Some ''connection lost'',
                                             Some ''connection lost'']\<rparr>\<rparr>"

definition web_request :: CreateAppRequest where
  "web_request = \<lparr>Req_Name = ''web'', Req_Image = ''x:1'', Req_Replicas = 3, Req_Port = 0,
                  Req_UserID = 7\<rparr>"

section \<open>The record store\<close>

lemma find_map_upd:
  "(\<And>a. ID (f a) = ID a) \<Longrightarrow>
   find (\<lambda>a. ID a = i) (map (\<lambda>a. if ID a = j then f a else a) xs)
     = (if i = j then map_option f (find (\<lambda>a. ID a = i) xs) else find (\<lambda>a. ID a = i) xs)"
  by (induction xs) auto

lemma record_of_UpdateStatus:
  "record_of (snd (UpdateStatus s i st)) j =
     (if fst (UpdateStatus s i st) = None \<and> i = j
      then map_option (\<lambda>a. a\<lparr>Status := st\<rparr>) (record_of s j)
      else record_of s j)"
  unfolding record_of_def UpdateStatus_def DB_statement_def
  by (auto simp: find_map_upd split: list.splits option.splits)

lemma record_of_UpdateReplicas:
  "record_of (snd (UpdateReplicas s i r)) j =
     (if fst (UpdateReplicas s i r) = None \<and> i = j
      then map_option (\<lambda>a. a\<lparr>Replicas := r\<rparr>) (record_of s j)
      else record_of s j)"
  unfolding record_of_def UpdateReplicas_def DB_statement_def
  by (auto simp: find_map_upd split: list.splits option.splits)

lemma UpdateStatus_ok: "fst (UpdateStatus s i st) = None \<longleftrightarrow> carries_out 1 s"
  by (auto simp: UpdateStatus_def DB_statement_def carries_out_def split: list.splits option.splits)

lemma UpdateReplicas_ok: "fst (UpdateReplicas s i r) = None \<longleftrightarrow> carries_out 1 s"
  by (auto simp: UpdateReplicas_def DB_statement_def carries_out_def
      split: list.splits option.splits)

lemma carries_out_UpdateStatus:
  "carries_out n (snd (UpdateStatus s i st)) = carries_out n (s\<lparr>db_script := tl (db_script s)\<rparr>)"
  by (auto simp: carries_out_def UpdateStatus_def DB_statement_def
      split: list.splits option.splits)

lemma carries_out_2:
  "carries_out 2 s \<longleftrightarrow> carries_out 1 s \<and> carries_out 1 (s\<lparr>db_script := tl (db_script s)\<rparr>)"
  by (cases "db_script s"; cases "tl (db_script s)") (auto simp: carries_out_def)

lemma GetByUserAndName_result:
  "GetByUserAndName s u n =
     (case db_script s of
        Some m # fs \<Rightarrow> (Inl (DBError m), s\<lparr>db_script := fs\<rparr>)
      | _ \<Rightarrow> (case record_named s u n of None \<Rightarrow> Inl ErrRecordNotFound | Some a \<Rightarrow> Inr a,
              s\<lparr>db_script := tl (db_script s)\<rparr>))"
  by (auto simp: GetByUserAndName_def DB_statement_def record_named_def
      split: list.splits option.splits)

lemma Create_fails:
  "\<not> carries_out 1 s \<Longrightarrow>
     \<exists>m. Create s app = ((Some (DBError m), app), s\<lparr>db_script := tl (db_script s)\<rparr>)"
  by (auto simp: Create_def DB_statement_def carries_out_def Let_def
      split: list.splits option.splits)

lemma Create_succeeds:
  "carries_out 1 s \<Longrightarrow>
     Create s app =
       ((None, (gorm_defaults app)\<lparr>ID := next_id s\<rparr>),
        s\<lparr>rows := rows s @ [(gorm_defaults app)\<lparr>ID := next_id s\<rparr>],
          next_id := Suc (next_id s), db_script := tl (db_script s)\<rparr>)"
  by (auto simp: Create_def DB_statement_def carries_out_def Let_def
      split: list.splits option.splits)

lemma Delete_result:
  "Delete s i =
     (if carries_out 1 s
      then (None, s\<lparr>rows := filter (\<lambda>a. ID a \<noteq> i) (rows s), db_script := tl (db_script s)\<rparr>)
      else (Some (DBError (the (hd (db_script s)))), s\<lparr>db_script := tl (db_script s)\<rparr>))"
  by (auto simp: Delete_def DB_statement_def carries_out_def Let_def
      split: list.splits option.splits)

lemma find_None_filter: "find P xs = None \<Longrightarrow> find P (filter Q xs) = None"
  by (auto simp: find_None_iff)

lemma find_snoc_None: "find P xs = None \<Longrightarrow> find P (xs @ [a]) = (if P a then Some a else None)"
  by (induction xs) (auto split: if_splits)

lemma GetByID_result:
  "GetByID s i =
     (if carries_out 1 s
      then (case record_of s i of None \<Rightarrow> Inl ErrRecordNotFound | Some a \<Rightarrow> Inr a,
            s\<lparr>db_script := tl (db_script s)\<rparr>)
      else (Inl (DBError (the (hd (db_script s)))), s\<lparr>db_script := tl (db_script s)\<rparr>))"
  by (auto simp: GetByID_def DB_statement_def record_of_def carries_out_def
      split: list.splits option.splits)

lemma record_of_ID: "record_of s i = Some a \<Longrightarrow> ID a = i"
  by (auto simp: record_of_def find_Some_iff)

lemma record_of_filter: "record_of (s\<lparr>rows := filter (\<lambda>a. ID a \<noteq> i) (rows s)\<rparr>) i = None"
  by (auto simp: record_of_def find_None_iff)

lemma record_of_script [simp]: "record_of (s\<lparr>db_script := x\<rparr>) i = record_of s i"
  by (simp add: record_of_def)

lemma carries_out_script [simp]: "carries_out n (s\<lparr>db_script := x\<rparr>) = list_all (\<lambda>f. f = None) (take n x)"
  by (simp add: carries_out_def)

lemma getAppWithPermission_result:
  "getAppWithPermission w appID userID =
     (if \<not> carries_out 1 (db w)
      then Inl (Typed \<lparr>Code = ErrDatabase, Msg = ErrorText (DBError (the (hd (db_script (db w)))))\<rparr>)
      else (case record_of (db w) appID of
              None \<Rightarrow> Inl (Typed \<lparr>Code = ErrAppNotFound, Msg = Message ErrAppNotFound\<rparr>)
            | Some app \<Rightarrow>
                if UserID app \<noteq> userID
                then Inl (Typed \<lparr>Code = ErrForbidden, Msg = Message ErrForbidden\<rparr>)
                else Inr app),
      w\<lparr>db := (db w)\<lparr>db_script := tl (db_script (db w))\<rparr>\<rparr>)"
  by (auto simp: getAppWithPermission_def GetByID_result New_def NewWithMsg_def
      split: option.splits)

lemma getAppWithPermission_Inr:
  "fst (getAppWithPermission w appID userID) = Inr app \<longleftrightarrow>
     carries_out 1 (db w) \<and> record_of (db w) appID = Some app \<and> UserID app = userID"
  by (auto simp: getAppWithPermission_result split: option.splits)

lemma rows_UpdateStatus:
  "rows (snd (UpdateStatus s i st)) =
     (if carries_out 1 s then map (\<lambda>a. if ID a = i then a\<lparr>Status := st\<rparr> else a) (rows s)
      else rows s)"
  by (auto simp: UpdateStatus_def DB_statement_def carries_out_def split: list.splits option.splits)

lemma UpdateStatus_result:
  "UpdateStatus s i st =
     (if carries_out 1 s
      then (None, s\<lparr>rows := map (\<lambda>a. if ID a = i then a\<lparr>Status := st\<rparr> else a) (rows s),
                     db_script := tl (db_script s)\<rparr>)
      else (Some (DBError (the (hd (db_script s)))), s\<lparr>db_script := tl (db_script s)\<rparr>))"
  by (auto simp: UpdateStatus_def DB_statement_def carries_out_def split: list.splits option.splits)

lemma UpdateReplicas_result:
  "UpdateReplicas s i r =
     (if carries_out 1 s
      then (None, s\<lparr>rows := map (\<lambda>a. if ID a = i then a\<lparr>Replicas := r\<rparr> else a) (rows s),
                     db_script := tl (db_script s)\<rparr>)
      else (Some (DBError (the (hd (db_script s)))), s\<lparr>db_script := tl (db_script s)\<rparr>))"
  by (auto simp: UpdateReplicas_def DB_statement_def carries_out_def split: list.splits option.splits)

lemma list_all_take_Suc:
  "list_all P (take (Suc (Suc n)) xs) \<longleftrightarrow>
     list_all P (take (Suc 0) xs) \<and> list_all P (take (Suc n) (tl xs))"
  by (cases xs) auto

lemma carries_out_rows [simp]: "carries_out n (s\<lparr>rows := r\<rparr>) = carries_out n s"
  by (simp add: carries_out_def)

lemma carries_out_0 [simp]: "carries_out 0 s"
  by (simp add: carries_out_def)

lemma record_of_rows_upd:
  "(\<And>a. ID (f a) = ID a) \<Longrightarrow>
   record_of (s\<lparr>rows := map (\<lambda>a. if ID a = j then f a else a) (rows s)\<rparr>) i
     = (if i = j then map_option f (record_of s i) else record_of s i)"
  by (simp add: record_of_def find_map_upd)

section \<open>The adapter on the cluster\<close>

lemma api_call_result:
  "api_call c =
     (if api_carries_out 1 c then None else hd (api_script c),
      c\<lparr>api_script := tl (api_script c)\<rparr>)"
  by (auto simp: api_call_def api_carries_out_def split: list.splits)

lemma api_call_cases:
  "api_call c = (r, c') \<Longrightarrow>
     c' = c\<lparr>api_script := tl (api_script c)\<rparr> \<and> (r = None \<longleftrightarrow> api_carries_out 1 c)"
  by (auto simp: api_call_def api_carries_out_def split: list.splits)

lemma ScaleApp_success:
  assumes "ClientGoAdapter_ScaleApp c name ns n = (None, c')"
  shows "\<exists>d. map_of (deployments c') (ns, name) = Some (d\<lparr>Spec_Replicas := Some n\<rparr>)
           \<and> api_script c' = tl (tl (api_script c)) \<and> pods c' = pods c"
  using assms
  by (auto simp: ClientGoAdapter_ScaleApp_def Deployments_Get_def Deployments_Update_def
        api_call_def update_conv'
      split: prod.splits sum.splits option.splits list.splits if_splits)

lemma GetAppStatus_stopped:
  assumes d: "map_of (deployments c) (ns, name) = Some (d\<lparr>Spec_Replicas := Some 0\<rparr>)"
      and ok: "api_carries_out 2 c"
  shows "\<exists>st. fst (ClientGoAdapter_GetAppStatus c name ns) = Returned (Inr st)
           \<and> AppStatus_Status st = ''stopped'' \<and> AppStatus_Replicas st = 0"
proof -
  have k: "api_carries_out 1 c" "api_carries_out 1 (c\<lparr>api_script := tl (api_script c)\<rparr>)"
    using ok by (cases "api_script c"; cases "tl (api_script c)"; simp add: api_carries_out_def)+
  show ?thesis
    using d k
    by (simp add: ClientGoAdapter_GetAppStatus_def Deployments_Get_def Pods_List_def
          api_call_result determineStatus_def Let_def)
qed

lemma decimal_7: "decimal 7 = ''7''"
  by (simp add: decimal.simps)

text \<open>The definitions that a run on a concrete world unfolds.\<close>

lemmas store_run =
  DB_statement_def Create_def Delete_def GetByID_def GetByUserID_def GetByUserAndName_def
  UpdateStatus_def UpdateReplicas_def gorm_defaults_def record_of_def record_named_def
  carries_out_def api_carries_out_def New_def NewWithMsg_def

lemmas cluster_run =
  api_call_def Namespaces_Get_def Namespaces_Create_def Deployments_Create_def
  Deployments_Get_def Deployments_Update_def Deployments_Delete_def Services_Create_def
  Services_Delete_def Pods_List_def Pods_GetLogs_Stream_def copy_stream_def tail_lines_def
  IsNotFound_def IsAlreadyExists_def determineStatus_def

lemmas adapter_run =
  Adapter_def ClientGoAdapter_EnsureNamespace_def ClientGoAdapter_CreateApp_def
  ClientGoAdapter_DeleteApp_def ClientGoAdapter_ScaleApp_def ClientGoAdapter_GetAppStatus_def
  ClientGoAdapter_RestartApp_def ClientGoAdapter_GetAppLogs_def

lemmas worlds =
  web_app_def web_deployment_def web_pod_def empty_cluster_def web_cluster_def web_store_def
  web_world_def empty_world_def outage_world_def scaled_down_cluster_def
  unreachable_cluster_def web_request_def stopped_cluster_def stopped_world_def flaky_world_def

section \<open>Status derivation\<close>

text \<open>
  C1. The status is a function of the desired count D (\<open>Spec.Replicas\<close>, nil read as 0) and
  the ready count R (\<open>Status.ReadyReplicas\<close>) alone: two deployments that agree on both get
  the same status. It is \<open>stopped\<close> when D is unset or 0, whatever R is; \<open>running\<close> when
  D > 0 and R = D; \<open>pending\<close> when D > 0 and R = 0; \<open>starting\<close> when 0 < R < D.
\<close>

theorem determineStatus_derivation:
  "(Spec_Replicas d = Spec_Replicas d' \<and> Status_ReadyReplicas d = Status_ReadyReplicas d'
      \<longrightarrow> determineStatus d = determineStatus d')
   \<and> (Spec_Replicas d = None \<or> Spec_Replicas d = Some 0 \<longrightarrow> determineStatus d = ''stopped'')
   \<and> (Spec_Replicas d = Some D \<and> 0 < sint D \<and> Status_ReadyReplicas d = D
      \<longrightarrow> determineStatus d = ''running'')
   \<and> (Spec_Replicas d = Some D \<and> 0 < sint D \<and> Status_ReadyReplicas d = 0
      \<longrightarrow> determineStatus d = ''pending'')
   \<and> (Spec_Replicas d = Some D \<and> 0 < sint (Status_ReadyReplicas d)
        \<and> sint (Status_ReadyReplicas d) < sint D
      \<longrightarrow> determineStatus d = ''starting'')"
  by (auto simp: determineStatus_def)

theorem determineStatus_derivation_witness:
  "determineStatus (web_deployment\<lparr>Spec_Replicas := Some 3, Status_ReadyReplicas := 3\<rparr>) = ''running''
   \<and> determineStatus (web_deployment\<lparr>Spec_Replicas := Some 3, Status_ReadyReplicas := 1\<rparr>) = ''starting''
   \<and> determineStatus (web_deployment\<lparr>Spec_Replicas := Some 3, Status_ReadyReplicas := 0\<rparr>) = ''pending''
   \<and> determineStatus (web_deployment\<lparr>Spec_Replicas := Some 0, Status_ReadyReplicas := 2\<rparr>) = ''stopped''
   \<and> determineStatus (web_deployment\<lparr>Spec_Replicas := None, Status_ReadyReplicas := 2\<rparr>) = ''stopped''"
  using
    determineStatus_derivation
      [of "web_deployment\<lparr>Spec_Replicas := Some 3, Status_ReadyReplicas := 3\<rparr>" _ 3]
    determineStatus_derivation
      [of "web_deployment\<lparr>Spec_Replicas := Some 3, Status_ReadyReplicas := 1\<rparr>" _ 3]
    determineStatus_derivation
      [of "web_deployment\<lparr>Spec_Replicas := Some 3, Status_ReadyReplicas := 0\<rparr>" _ 3]
    determineStatus_derivation
      [of "web_deployment\<lparr>Spec_Replicas := Some 0, Status_ReadyReplicas := 2\<rparr>"]
    determineStatus_derivation
      [of "web_deployment\<lparr>Spec_Replicas := None, Status_ReadyReplicas := 2\<rparr>"]
  by simp

section \<open>Reconciliation\<close>

text \<open>
  C2. One run of \<open>syncAppStatus\<close>, for any adapter. If the status query returns an error
  (or panics), the database is left exactly as it was, and the run has no error to hand to
  anyone. If the query returns a status, the record of the application keeps every field
  but \<open>Status\<close> and \<open>Replicas\<close>, and no other record changes; the status update is issued
  whatever was observed, so the persisted status is the observed one once the database
  carries the statement out; the replica count changes only to an observed count above
  zero, and does so when the database carries out both statements; hence a positive
  persisted count stays positive whatever is observed.
\<close>

theorem syncAppStatus_reconciles:
  assumes run: "syncAppStatus ad w appID name namespace = (r, w')"
  shows "(\<forall>err. fst (adapter_GetAppStatus ad (cluster w) name namespace) = Returned (Inl err)
            \<longrightarrow> r = Returned () \<and> db w' = db w)
       \<and> (fst (adapter_GetAppStatus ad (cluster w) name namespace) = Panicked
            \<longrightarrow> r = Panicked \<and> db w' = db w)
       \<and> (\<forall>st a. fst (adapter_GetAppStatus ad (cluster w) name namespace) = Returned (Inr st)
              \<and> record_of (db w) appID = Some a
            \<longrightarrow> r = Returned ()
              \<and> (\<exists>a'. record_of (db w') appID = Some a'
                    \<and> a' = a\<lparr>Status := Status a', Replicas := Replicas a'\<rparr>
                    \<and> (carries_out 1 (db w) \<longrightarrow> Status a' = AppStatus_Status st)
                    \<and> (Replicas a' \<noteq> Replicas a
                         \<longrightarrow> 0 < sint (AppStatus_Replicas st)
                             \<and> Replicas a' = sint (AppStatus_Replicas st))
                    \<and> (carries_out 2 (db w) \<and> 0 < sint (AppStatus_Replicas st)
                         \<longrightarrow> Replicas a' = sint (AppStatus_Replicas st))
                    \<and> (0 < Replicas a \<longrightarrow> 0 < Replicas a')))
       \<and> (\<forall>j. j \<noteq> appID \<longrightarrow> record_of (db w') j = record_of (db w) j)"
proof (intro conjI)
  show "\<forall>err. fst (adapter_GetAppStatus ad (cluster w) name namespace) = Returned (Inl err)
            \<longrightarrow> r = Returned () \<and> db w' = db w"
    using run by (auto simp: syncAppStatus_def split: prod.splits outcome.splits sum.splits)
  show "fst (adapter_GetAppStatus ad (cluster w) name namespace) = Panicked
            \<longrightarrow> r = Panicked \<and> db w' = db w"
    using run by (auto simp: syncAppStatus_def split: prod.splits outcome.splits sum.splits)
  show "\<forall>j. j \<noteq> appID \<longrightarrow> record_of (db w') j = record_of (db w) j"
    using run
    by (auto simp: syncAppStatus_def Let_def record_of_UpdateStatus record_of_UpdateReplicas
        split: prod.splits outcome.splits sum.splits if_splits)
  show "\<forall>st a. fst (adapter_GetAppStatus ad (cluster w) name namespace) = Returned (Inr st)
              \<and> record_of (db w) appID = Some a
            \<longrightarrow> r = Returned ()
              \<and> (\<exists>a'. record_of (db w') appID = Some a'
                    \<and> a' = a\<lparr>Status := Status a', Replicas := Replicas a'\<rparr>
                    \<and> (carries_out 1 (db w) \<longrightarrow> Status a' = AppStatus_Status st)
                    \<and> (Replicas a' \<noteq> Replicas a
                         \<longrightarrow> 0 < sint (AppStatus_Replicas st)
                             \<and> Replicas a' = sint (AppStatus_Replicas st))
                    \<and> (carries_out 2 (db w) \<and> 0 < sint (AppStatus_Replicas st)
                         \<longrightarrow> Replicas a' = sint (AppStatus_Replicas st))
                    \<and> (0 < Replicas a \<longrightarrow> 0 < Replicas a'))"
    using run
    by (auto simp: syncAppStatus_def Let_def record_of_UpdateStatus record_of_UpdateReplicas
          UpdateStatus_ok UpdateReplicas_ok carries_out_2 carries_out_UpdateStatus
        split: prod.splits outcome.splits sum.splits if_splits)
qed

text \<open>
  On \<open>web_world\<close> with the workload scaled to zero from outside, the run observes
  \<open>stopped\<close> with zero replicas: the status is overwritten, the persisted count of three
  stays. With the API server unreachable, the database is untouched.
\<close>

theorem syncAppStatus_reconciles_witness:
  "fst (adapter_GetAppStatus Adapter scaled_down_cluster ''web'' ''astro-user-7'')
     = Returned (Inr \<lparr>AppStatus_Status = ''stopped'', AppStatus_ReadyReplicas = 3,
                      AppStatus_Replicas = 0,
                      AppStatus_Pods = [\<lparr>PodInfo_Name = ''web-1'', PodInfo_Status = ''Running'',
                                         PodInfo_Ready = True\<rparr>]\<rparr>)
   \<and> record_of (db (web_world\<lparr>cluster := scaled_down_cluster\<rparr>)) 1 = Some web_app
   \<and> carries_out 2 (db (web_world\<lparr>cluster := scaled_down_cluster\<rparr>))
   \<and> record_of (db (snd (syncAppStatus Adapter (web_world\<lparr>cluster := scaled_down_cluster\<rparr>) 1
                            ''web'' ''astro-user-7''))) 1
       = Some (web_app\<lparr>Status := ''stopped''\<rparr>)
   \<and> fst (adapter_GetAppStatus Adapter unreachable_cluster ''web'' ''astro-user-7'')
       = Returned (Inl (Errorf FmtGetDeploymentFailed
                          (Some (StatusError (StatusReasonOther ''timeout'')))))
   \<and> db (snd (syncAppStatus Adapter (web_world\<lparr>cluster := unreachable_cluster\<rparr>) 1
                 ''web'' ''astro-user-7''))
       = db (web_world\<lparr>cluster := unreachable_cluster\<rparr>)"
  using
    syncAppStatus_reconciles
      [of Adapter "web_world\<lparr>cluster := scaled_down_cluster\<rparr>" 1 "''web''" "''astro-user-7''"
          "Returned ()"
          "snd (syncAppStatus Adapter (web_world\<lparr>cluster := scaled_down_cluster\<rparr>) 1
                  ''web'' ''astro-user-7'')"]
    syncAppStatus_reconciles
      [of Adapter "web_world\<lparr>cluster := unreachable_cluster\<rparr>" 1 "''web''" "''astro-user-7''"
          "Returned ()"
          "snd (syncAppStatus Adapter (web_world\<lparr>cluster := unreachable_cluster\<rparr>) 1
                  ''web'' ''astro-user-7'')"]
  by (simp add: syncAppStatus_def store_run cluster_run adapter_run worlds)

section \<open>Create and its compensation\<close>

text \<open>
  C3, as stated, fails where the compensating delete fails: \<open>CreateApp\<close> drops the result
  of \<open>repo.Delete\<close> (\<open>_ =\<close>). In \<open>outage_world\<close> the cluster call fails, the delete fails,
  \<open>CreateApp\<close> returns the wrapped cluster error, and the \<open>pending\<close> record of
  (7, \<open>web\<close>) is still there.
\<close>

theorem CreateApp_orphan_counterexample:
  "fst (CreateApp Adapter outage_world web_request)
     = Inl (Typed \<lparr>Code = ErrAppCreateFailed,
                   Msg = ErrorText (Errorf FmtCreateNamespaceFailed
                           (Some (StatusError (StatusReasonOther ''connection refused''))))\<rparr>)
   \<and> fst (GetByUserAndName (db (snd (CreateApp Adapter outage_world web_request))) 7 ''web'')
       = Inr \<lparr>ID = 1, Name = ''web'', Image = ''x:1'', Replicas = 3, Status = ''pending'',
              UserID = 7, Namespace = ''astro-user-7''\<rparr>"
  by (simp add: CreateApp_def store_run cluster_run adapter_run worlds decimal_7 Let_def)

text \<open>
  C3, amended. Let the lookup for (owner, name) find no record. If the insert fails,
  \<open>CreateApp\<close> returns a database error and the cluster is as it was: nothing is sent to
  the cluster before the record is written. If the insert is carried out and the adapter's
  \<open>CreateApp\<close> fails with \<open>err\<close>, the result is the error with code
  \<open>ErrAppCreateFailed\<close> carrying the text of \<open>err\<close>, and a delete of the new record has
  been issued: when the database carries it out, no record of (owner, name) remains; when
  the database fails it, the record written before the cluster call remains, with status
  \<open>pending\<close>.
\<close>

theorem CreateApp_compensation:
  fixes ad :: "'c AppAdapter" and w :: "'c world" and req :: CreateAppRequest
  defines "namespace \<equiv> ''astro-user-'' @ decimal (Req_UserID req)"
  defines "spec \<equiv> \<lparr>AppSpec_Name = Req_Name req, AppSpec_Namespace = namespace,
                    AppSpec_Image = Req_Image req,
                    AppSpec_Replicas = word_of_int (Req_Replicas req),
                    AppSpec_Port = word_of_int (Req_Port req),
                    AppSpec_Labels = []\<rparr>"
  defines "s \<equiv> snd (GetByUserAndName (db w) (Req_UserID req) (Req_Name req))"
  defines "w' \<equiv> snd (CreateApp ad w req)"
  assumes free:
    "fst (GetByUserAndName (db w) (Req_UserID req) (Req_Name req)) = Inl ErrRecordNotFound"
  shows "(\<not> carries_out 1 s \<longrightarrow>
            (\<exists>e. fst (CreateApp ad w req) = Inl (Typed \<lparr>Code = ErrDatabase, Msg = ErrorText e\<rparr>))
            \<and> cluster w' = cluster w \<and> rows (db w') = rows (db w))
       \<and> (\<forall>err c. carries_out 1 s \<and> adapter_CreateApp ad (cluster w) spec = (Some err, c) \<longrightarrow>
            fst (CreateApp ad w req)
              = Inl (Typed \<lparr>Code = ErrAppCreateFailed, Msg = ErrorText err\<rparr>)
            \<and> cluster w' = c
            \<and> (carries_out 2 s \<longrightarrow>
                  record_named (db w') (Req_UserID req) (Req_Name req) = None)
            \<and> (\<not> carries_out 2 s \<longrightarrow>
                  (\<exists>a. record_named (db w') (Req_UserID req) (Req_Name req) = Some a
                      \<and> Status a = ''pending'' \<and> ID a = next_id (db w))))"
proof -
  obtain s0 where
    g: "GetByUserAndName (db w) (Req_UserID req) (Req_Name req) = (Inl ErrRecordNotFound, s0)"
    using free by (cases "GetByUserAndName (db w) (Req_UserID req) (Req_Name req)") auto
  have s0: "s = s0" using g by (simp add: s_def)
  have none: "record_named (db w) (Req_UserID req) (Req_Name req) = None"
    and rows0: "rows s0 = rows (db w)" and id0: "next_id s0 = next_id (db w)"
    using g by (auto simp: GetByUserAndName_result split: list.splits option.splits)
  let ?app = "\<lparr>ID = 0, Name = Req_Name req, Image = Req_Image req,
               Replicas = Req_Replicas req, Status = ''pending'',
               UserID = Req_UserID req, Namespace = namespace\<rparr>"
  show ?thesis
  proof (intro conjI impI allI)
    assume f: "\<not> carries_out 1 s"
    from Create_fails[OF f[unfolded s0], of ?app]
    obtain m where
      cf: "Create s0 ?app = ((Some (DBError m), ?app), s0\<lparr>db_script := tl (db_script s0)\<rparr>)"
      by blast
    have run0: "CreateApp ad w req =
        (Inl (Typed \<lparr>Code = ErrDatabase, Msg = ErrorText (DBError m)\<rparr>),
         w\<lparr>db := s0\<lparr>db_script := tl (db_script s0)\<rparr>\<rparr>)"
      using g cf by (simp add: CreateApp_def Let_def NewWithMsg_def namespace_def)
    show "\<exists>e. fst (CreateApp ad w req) = Inl (Typed \<lparr>Code = ErrDatabase, Msg = ErrorText e\<rparr>)"
      by (simp add: run0)
    show "cluster w' = cluster w" "rows (db w') = rows (db w)"
      by (simp_all add: w'_def run0 rows0)
  next
    fix err c
    assume a: "carries_out 1 s \<and> adapter_CreateApp ad (cluster w) spec = (Some err, c)"
    then have ok: "carries_out 1 s0"
      and ad: "adapter_CreateApp ad (cluster w) spec = (Some err, c)"
      by (auto simp: s0)
    note cr = Create_succeeds[OF ok]
    have run: "CreateApp ad w req =
      (Inl (Typed \<lparr>Code = ErrAppCreateFailed, Msg = ErrorText err\<rparr>),
       w\<lparr>db := snd (Delete (s0\<lparr>rows := rows s0 @ [(gorm_defaults ?app)\<lparr>ID := next_id s0\<rparr>],
                              next_id := Suc (next_id s0), db_script := tl (db_script s0)\<rparr>)
                      (next_id s0)),
         cluster := c\<rparr>)"
      using g ad[unfolded spec_def namespace_def]
      by (simp add: CreateApp_def Let_def NewWithMsg_def cr namespace_def)
    show "fst (CreateApp ad w req)
            = Inl (Typed \<lparr>Code = ErrAppCreateFailed, Msg = ErrorText err\<rparr>)"
      by (simp add: run)
    show "cluster w' = c" by (simp add: w'_def run)
    { assume "carries_out 2 s"
      then have d: "carries_out 1 (s0\<lparr>db_script := tl (db_script s0)\<rparr>)"
        by (simp add: carries_out_2 s0)
      show "record_named (db w') (Req_UserID req) (Req_Name req) = None"
        using none d unfolding w'_def run
        by (simp add: Delete_result carries_out_def record_named_def rows0 find_None_filter) }
    { assume "\<not> carries_out 2 s"
      then have d: "\<not> carries_out 1 (s0\<lparr>db_script := tl (db_script s0)\<rparr>)"
        using ok by (simp add: carries_out_2 s0)
      show "\<exists>a. record_named (db w') (Req_UserID req) (Req_Name req) = Some a
                      \<and> Status a = ''pending'' \<and> ID a = next_id (db w)"
        using none d unfolding w'_def run
        by (simp add: Delete_result carries_out_def record_named_def rows0 id0 find_snoc_None
              gorm_defaults_def) }
  qed
qed

text \<open>
  On \<open>empty_world\<close> with the API server unreachable and a database that works, the
  failed \<open>CreateApp\<close> leaves no record of (7, \<open>web\<close>).
\<close>

theorem CreateApp_compensation_witness:
  "fst (GetByUserAndName (db (empty_world\<lparr>cluster := cluster outage_world\<rparr>)) 7 ''web'')
     = Inl ErrRecordNotFound
   \<and> carries_out 2 (snd (GetByUserAndName (db (empty_world\<lparr>cluster := cluster outage_world\<rparr>))
                            7 ''web''))
   \<and> fst (CreateApp Adapter (empty_world\<lparr>cluster := cluster outage_world\<rparr>) web_request)
       = Inl (Typed \<lparr>Code = ErrAppCreateFailed,
                     Msg = ErrorText (Errorf FmtCreateNamespaceFailed
                             (Some (StatusError (StatusReasonOther ''connection refused''))))\<rparr>)
   \<and> record_named
        (db (snd (CreateApp Adapter (empty_world\<lparr>cluster := cluster outage_world\<rparr>) web_request)))
        7 ''web'' = None"
  using CreateApp_compensation
          [where w = "empty_world\<lparr>cluster := cluster outage_world\<rparr>" and req = web_request
             and ad = Adapter]
  by (simp add: CreateApp_def store_run cluster_run adapter_run worlds decimal_7 Let_def)

section \<open>Delete\<close>

text \<open>
  C4. For a record that is found and owned by the caller, \<open>DeleteApp\<close> calls the adapter's
  \<open>DeleteApp\<close> before it touches the database: the cluster it leaves is the one that call
  leaves. If that call fails with \<open>err\<close>, the result is the error with code
  \<open>ErrK8sOperation\<close> carrying the text of \<open>err\<close>, no row has changed, and the record is
  still the one \<open>GetByID\<close> returns. If it succeeds and the database carries the delete
  out, the record is gone. Whenever a run of \<open>DeleteApp\<close> changes the rows at all, the
  cluster deletion had succeeded.
\<close>

theorem DeleteApp_cluster_first:
  fixes ad :: "'c AppAdapter" and w :: "'c world" and appID userID :: nat
  defines "w' \<equiv> snd (DeleteApp ad w appID userID)"
  shows "(\<forall>app. fst (GetByID (db w) appID) = Inr app \<and> UserID app = userID \<longrightarrow>
            cluster w' = snd (adapter_DeleteApp ad (cluster w) (Name app) (Namespace app))
          \<and> (\<forall>err. fst (adapter_DeleteApp ad (cluster w) (Name app) (Namespace app)) = Some err \<longrightarrow>
                fst (DeleteApp ad w appID userID)
                  = Some (Typed \<lparr>Code = ErrK8sOperation, Msg = ErrorText err\<rparr>)
              \<and> rows (db w') = rows (db w)
              \<and> record_of (db w') appID = Some app
              \<and> (carries_out 1 (db w') \<longrightarrow> fst (GetByID (db w') appID) = Inr app))
          \<and> (fst (adapter_DeleteApp ad (cluster w) (Name app) (Namespace app)) = None
                \<and> carries_out 2 (db w) \<longrightarrow>
                fst (DeleteApp ad w appID userID) = None \<and> record_of (db w') appID = None))
       \<and> (rows (db w') \<noteq> rows (db w) \<longrightarrow>
            (\<exists>app. fst (GetByID (db w) appID) = Inr app \<and> UserID app = userID
               \<and> fst (adapter_DeleteApp ad (cluster w) (Name app) (Namespace app)) = None))"
proof (intro conjI allI impI)
  fix app
  assume a: "fst (GetByID (db w) appID) = Inr app \<and> UserID app = userID"
  then have c1: "carries_out 1 (db w)" and r: "record_of (db w) appID = Some app"
    by (auto simp: GetByID_result split: if_splits option.splits)
  have g: "GetByID (db w) appID = (Inr app, (db w)\<lparr>db_script := tl (db_script (db w))\<rparr>)"
    using c1 r by (simp add: GetByID_result)
  show "cluster w' = snd (adapter_DeleteApp ad (cluster w) (Name app) (Namespace app))"
    using a g unfolding w'_def
    by (auto simp: DeleteApp_def split: prod.splits option.splits)
  { fix err
    assume e: "fst (adapter_DeleteApp ad (cluster w) (Name app) (Namespace app)) = Some err"
    then have run: "DeleteApp ad w appID userID =
        (Some (Typed \<lparr>Code = ErrK8sOperation, Msg = ErrorText err\<rparr>),
         w\<lparr>db := (db w)\<lparr>db_script := tl (db_script (db w))\<rparr>,
           cluster := snd (adapter_DeleteApp ad (cluster w) (Name app) (Namespace app))\<rparr>)"
      using a g by (auto simp: DeleteApp_def NewWithMsg_def split: prod.splits option.splits)
    show "fst (DeleteApp ad w appID userID)
            = Some (Typed \<lparr>Code = ErrK8sOperation, Msg = ErrorText err\<rparr>)"
      by (simp add: run)
    show "rows (db w') = rows (db w)" by (simp add: w'_def run)
    show "record_of (db w') appID = Some app" by (simp add: w'_def run r)
    { assume "carries_out 1 (db w')"
      then show "fst (GetByID (db w') appID) = Inr app"
        by (simp add: w'_def run r GetByID_result) } }
  { assume n: "fst (adapter_DeleteApp ad (cluster w) (Name app) (Namespace app)) = None
                \<and> carries_out 2 (db w)"
    then have d: "carries_out 1 ((db w)\<lparr>db_script := tl (db_script (db w))\<rparr>)"
      by (simp add: carries_out_2)
    have run: "DeleteApp ad w appID userID =
        (None,
         w\<lparr>db := (db w)\<lparr>rows := filter (\<lambda>a. ID a \<noteq> appID) (rows (db w)),
                         db_script := tl (tl (db_script (db w)))\<rparr>,
           cluster := snd (adapter_DeleteApp ad (cluster w) (Name app) (Namespace app))\<rparr>)"
      using a g n d
      by (auto simp: DeleteApp_def Delete_result split: prod.splits option.splits)
    show "fst (DeleteApp ad w appID userID) = None" by (simp add: run)
    show "record_of (db w') appID = None"
      using record_of_filter[where s="db w" and i=appID] by (simp add: w'_def run record_of_def) }
next
  assume ch: "rows (db w') \<noteq> rows (db w)"
  then show "\<exists>app. fst (GetByID (db w) appID) = Inr app \<and> UserID app = userID
               \<and> fst (adapter_DeleteApp ad (cluster w) (Name app) (Namespace app)) = None"
    unfolding w'_def
    by (auto simp: DeleteApp_def GetByID_result Delete_result
        split: prod.splits option.splits if_splits sum.splits)
qed

text \<open>
  On \<open>web_world\<close> with the API server unreachable, \<open>DeleteApp\<close> fails and the record can
  be read afterwards.
\<close>

theorem DeleteApp_cluster_first_witness:
  "fst (GetByID (db (web_world\<lparr>cluster := unreachable_cluster\<rparr>)) 1) = Inr web_app
   \<and> UserID web_app = 7
   \<and> fst (adapter_DeleteApp Adapter unreachable_cluster ''web'' ''astro-user-7'')
       = Some (Errorf FmtDeleteDeploymentFailed
                 (Some (StatusError (StatusReasonOther ''timeout''))))
   \<and> fst (DeleteApp Adapter (web_world\<lparr>cluster := unreachable_cluster\<rparr>) 1 7)
       = Some (Typed \<lparr>Code = ErrK8sOperation,
                      Msg = ErrorText (Errorf FmtDeleteDeploymentFailed
                              (Some (StatusError (StatusReasonOther ''timeout''))))\<rparr>)
   \<and> fst (GetByID (db (snd (DeleteApp Adapter (web_world\<lparr>cluster := unreachable_cluster\<rparr>) 1 7))) 1)
       = Inr web_app"
  using DeleteApp_cluster_first
          [where w = "web_world\<lparr>cluster := unreachable_cluster\<rparr>" and appID = 1 and userID = 7
             and ad = Adapter]
  by (simp add: DeleteApp_def store_run cluster_run adapter_run worlds Let_def)

section \<open>Start\<close>

text \<open>
  C8. For a record found and owned by the caller, \<open>StartApp\<close> calls the adapter's
  \<open>ScaleApp\<close> on the record's name and namespace with the target 1 when the persisted
  replica count is 0, and with the persisted count (converted to \<open>int32\<close>) otherwise:
  for every adapter, the cluster \<open>StartApp\<close> leaves is the one that call leaves, and
  \<open>StartApp\<close> succeeds exactly when that call does. A positive count within the range of
  \<open>int32\<close> is passed unchanged.
\<close>

theorem StartApp_scale_target:
  fixes ad :: "'c AppAdapter" and w :: "'c world" and appID userID :: nat and app :: App
  defines "w' \<equiv> snd (StartApp ad w appID userID)"
  assumes owned: "fst (getAppWithPermission w appID userID) = Inr app"
  shows "(Replicas app = 0 \<longrightarrow>
            cluster w' = snd (adapter_ScaleApp ad (cluster w) (Name app) (Namespace app) 1)
          \<and> (fst (StartApp ad w appID userID) = None)
              = (fst (adapter_ScaleApp ad (cluster w) (Name app) (Namespace app) 1) = None))
       \<and> (Replicas app \<noteq> 0 \<longrightarrow>
            cluster w'
              = snd (adapter_ScaleApp ad (cluster w) (Name app) (Namespace app)
                       (word_of_int (Replicas app)))
          \<and> (fst (StartApp ad w appID userID) = None)
              = (fst (adapter_ScaleApp ad (cluster w) (Name app) (Namespace app)
                        (word_of_int (Replicas app))) = None))
       \<and> (0 < Replicas app \<and> Replicas app < 2 ^ 31 \<longrightarrow>
            sint (word_of_int (Replicas app) :: int32) = Replicas app)"
proof -
  have g: "getAppWithPermission w appID userID
             = (Inr app, w\<lparr>db := (db w)\<lparr>db_script := tl (db_script (db w))\<rparr>\<rparr>)"
    using owned by (simp add: getAppWithPermission_result split: if_splits option.splits)
  have s: "0 < Replicas app \<and> Replicas app < 2 ^ 31 \<longrightarrow>
            sint (word_of_int (Replicas app) :: int32) = Replicas app"
    by (simp add: sint_sbintrunc' signed_take_bit_int_eq_self)
  show ?thesis
    unfolding w'_def using g s
    by (auto simp: StartApp_def Let_def split: prod.splits option.splits)
qed

text \<open>
  On \<open>stopped_world\<close> (persisted replicas 0) the workload is scaled to exactly 1; on
  \<open>web_world\<close> (persisted replicas 3) to 3.
\<close>

theorem StartApp_scale_target_witness:
  "fst (getAppWithPermission stopped_world 1 7) = Inr (web_app\<lparr>Replicas := 0, Status := ''stopped''\<rparr>)
   \<and> fst (StartApp Adapter stopped_world 1 7) = None
   \<and> map_option Spec_Replicas
        (map_of (deployments (cluster (snd (StartApp Adapter stopped_world 1 7))))
           (''astro-user-7'', ''web'')) = Some (Some 1)
   \<and> fst (getAppWithPermission web_world 1 7) = Inr web_app
   \<and> fst (StartApp Adapter web_world 1 7) = None
   \<and> map_option Spec_Replicas
        (map_of (deployments (cluster (snd (StartApp Adapter web_world 1 7))))
           (''astro-user-7'', ''web'')) = Some (Some 3)"
  using
    StartApp_scale_target
      [where w = stopped_world and appID = 1 and userID = 7 and ad = Adapter
         and app = "web_app\<lparr>Replicas := 0, Status := ''stopped''\<rparr>"]
    StartApp_scale_target
      [where w = web_world and appID = 1 and userID = 7 and ad = Adapter and app = web_app]
  by (simp add: StartApp_def getAppWithPermission_def store_run cluster_run adapter_run worlds
        Let_def)

text \<open>
  C10. A successful \<open>StartApp\<close> changes no replica count: the rows it leaves are the old
  rows, or the old rows with the status of the application set to \<open>starting\<close> (the status
  update is issued, its result dropped). So with a persisted count of 0 the cluster is
  scaled to 1 and the persisted count is still 0. A later run of \<open>syncAppStatus\<close> makes a
  persisted count of 0 positive only by observing a count above zero, which it then
  persists.
\<close>

theorem StartApp_keeps_replicas:
  fixes ad :: "'c AppAdapter" and w :: "'c world" and appID userID :: nat
  defines "w' \<equiv> snd (StartApp ad w appID userID)"
  assumes ok: "fst (StartApp ad w appID userID) = None"
  shows "(rows (db w') = rows (db w)
          \<or> rows (db w') = map (\<lambda>a. if ID a = appID then a\<lparr>Status := ''starting''\<rparr> else a)
                               (rows (db w)))
       \<and> map Replicas (rows (db w')) = map Replicas (rows (db w))
       \<and> (\<forall>a. record_of (db w) appID = Some a \<longrightarrow>
            (\<exists>a'. record_of (db w') appID = Some a' \<and> a' = a\<lparr>Status := Status a'\<rparr>
                 \<and> (carries_out 2 (db w) \<longrightarrow> Status a' = ''starting''))
          \<and> (Replicas a = 0 \<longrightarrow>
                cluster w' = snd (adapter_ScaleApp ad (cluster w) (Name a) (Namespace a) 1)))
       \<and> (\<forall>v n ns a a'.
            record_of (db v) appID = Some a \<and> Replicas a = 0
            \<and> record_of (db (snd (syncAppStatus ad v appID n ns))) appID = Some a'
            \<and> 0 < Replicas a' \<longrightarrow>
            (\<exists>st. fst (adapter_GetAppStatus ad (cluster v) n ns) = Returned (Inr st)
                \<and> 0 < sint (AppStatus_Replicas st)
                \<and> Replicas a' = sint (AppStatus_Replicas st)))"
proof -
  obtain app where owned: "fst (getAppWithPermission w appID userID) = Inr app"
    using ok by (cases "fst (getAppWithPermission w appID userID)")
      (auto simp: StartApp_def split: prod.splits)
  then have c1: "carries_out 1 (db w)" and r: "record_of (db w) appID = Some app"
    by (auto simp: getAppWithPermission_Inr)
  have g: "getAppWithPermission w appID userID
             = (Inr app, w\<lparr>db := (db w)\<lparr>db_script := tl (db_script (db w))\<rparr>\<rparr>)"
    using owned by (simp add: getAppWithPermission_result split: if_splits option.splits)
  let ?t = "word_of_int (if Replicas app = 0 then 1 else Replicas app) :: int32"
  let ?s1 = "(db w)\<lparr>db_script := tl (db_script (db w))\<rparr>"
  have sc: "fst (adapter_ScaleApp ad (cluster w) (Name app) (Namespace app) ?t) = None"
    using ok g by (auto simp: StartApp_def Let_def split: prod.splits option.splits)
  have run: "w' = w\<lparr>db := snd (UpdateStatus ?s1 appID ''starting''),
                    cluster := snd (adapter_ScaleApp ad (cluster w) (Name app) (Namespace app) ?t),
                    spawned := spawned w @ [(appID, Name app, Namespace app)]\<rparr>"
    unfolding w'_def using g sc
    by (auto simp: StartApp_def Let_def split: prod.splits option.splits)
  have rows: "rows (db w') = rows (db w)
          \<or> rows (db w') = map (\<lambda>a. if ID a = appID then a\<lparr>Status := ''starting''\<rparr> else a)
                               (rows (db w))"
    by (simp add: run rows_UpdateStatus)
  have reps: "map Replicas (rows (db w')) = map Replicas (rows (db w))"
  proof -
    have "map Replicas (map (\<lambda>a. if ID a = appID then a\<lparr>Status := ''starting''\<rparr> else a) xs)
            = map Replicas xs" for xs
      by (induction xs) auto
    then show ?thesis using rows by (elim disjE) simp_all
  qed
  have rec: "\<forall>a. record_of (db w) appID = Some a \<longrightarrow>
            (\<exists>a'. record_of (db w') appID = Some a' \<and> a' = a\<lparr>Status := Status a'\<rparr>
                 \<and> (carries_out 2 (db w) \<longrightarrow> Status a' = ''starting''))
          \<and> (Replicas a = 0 \<longrightarrow>
                cluster w' = snd (adapter_ScaleApp ad (cluster w) (Name a) (Namespace a) 1))"
    using r by (auto simp: run record_of_UpdateStatus UpdateStatus_ok carries_out_2)
  have sync: "\<forall>v n ns a a'.
            record_of (db v) appID = Some a \<and> Replicas a = 0
            \<and> record_of (db (snd (syncAppStatus ad v appID n ns))) appID = Some a'
            \<and> 0 < Replicas a' \<longrightarrow>
            (\<exists>st. fst (adapter_GetAppStatus ad (cluster v) n ns) = Returned (Inr st)
                \<and> 0 < sint (AppStatus_Replicas st)
                \<and> Replicas a' = sint (AppStatus_Replicas st))"
    by (auto simp: syncAppStatus_def Let_def record_of_UpdateStatus record_of_UpdateReplicas
        split: prod.splits outcome.splits sum.splits if_splits)
  show ?thesis using rows reps rec sync by blast
qed

text \<open>
  On \<open>stopped_world\<close>: after \<open>StartApp\<close> the record has status \<open>starting\<close> and still 0
  replicas while the Deployment wants 1; the next \<open>syncAppStatus\<close> observes 1 and
  persists it.
\<close>

theorem StartApp_keeps_replicas_witness:
  "fst (StartApp Adapter stopped_world 1 7) = None
   \<and> record_of (db stopped_world) 1 = Some (web_app\<lparr>Replicas := 0, Status := ''stopped''\<rparr>)
   \<and> carries_out 2 (db stopped_world)
   \<and> record_of (db (snd (StartApp Adapter stopped_world 1 7))) 1
       = Some (web_app\<lparr>Replicas := 0, Status := ''starting''\<rparr>)
   \<and> map_option Spec_Replicas
        (map_of (deployments (cluster (snd (StartApp Adapter stopped_world 1 7))))
           (''astro-user-7'', ''web'')) = Some (Some 1)
   \<and> record_of
        (db (snd (syncAppStatus Adapter (snd (StartApp Adapter stopped_world 1 7)) 1
                    ''web'' ''astro-user-7''))) 1
       = Some (web_app\<lparr>Replicas := 1, Status := ''pending''\<rparr>)"
  using StartApp_keeps_replicas
          [where w = stopped_world and appID = 1 and userID = 7 and ad = Adapter]
  by (simp add: StartApp_def syncAppStatus_def getAppWithPermission_def store_run cluster_run
        adapter_run worlds Let_def)

section \<open>Stop, then Get\<close>

text \<open>
  A successful \<open>StopApp\<close> on a database that carries the statements out, followed by
  \<open>GetApp\<close> on any cluster state \<open>c\<close>, for any adapter.
\<close>

lemma StopApp_then_GetApp_any_adapter:
  fixes ad :: "'c AppAdapter" and w :: "'c world" and appID userID :: nat
  defines "w1 \<equiv> snd (StopApp ad w appID userID)"
  defines "a \<equiv> the (record_of (db w1) appID)"
  assumes stop: "fst (StopApp ad w appID userID) = None"
      and store: "carries_out 7 (db w)"
  shows "record_of (db w1) appID = Some a"
    and "Status a = ''stopped''" and "Replicas a = 0"
    and "fst (adapter_ScaleApp ad (cluster w) (Name a) (Namespace a) 0) = None"
    and "cluster w1 = snd (adapter_ScaleApp ad (cluster w) (Name a) (Namespace a) 0)"
    and "\<And>c err. fst (adapter_GetAppStatus ad c (Name a) (Namespace a)) = Returned (Inl err)
           \<Longrightarrow> fst (GetApp ad (w1\<lparr>cluster := c\<rparr>) appID userID) = Returned (Inr a)"
    and "\<And>c st. fst (adapter_GetAppStatus ad c (Name a) (Namespace a)) = Returned (Inr st)
           \<Longrightarrow> fst (GetApp ad (w1\<lparr>cluster := c\<rparr>) appID userID)
                 = Returned (Inr (a\<lparr>Status := AppStatus_Status st,
                                    Replicas := (if 0 < sint (AppStatus_Replicas st)
                                                 then sint (AppStatus_Replicas st)
                                                 else 0)\<rparr>))"
proof -
  obtain app where owned: "fst (getAppWithPermission w appID userID) = Inr app"
    using stop by (cases "fst (getAppWithPermission w appID userID)")
      (auto simp: StopApp_def split: prod.splits)
  then have r: "record_of (db w) appID = Some app" and u: "UserID app = userID"
    by (auto simp: getAppWithPermission_Inr)
  have idapp: "ID app = appID" using r by (rule record_of_ID)
  let ?s = "db w"
  let ?x = "db_script (db w)"
  have k: "carries_out 1 ?s"
          "carries_out 1 (?s\<lparr>db_script := tl ?x\<rparr>)"
          "carries_out 1 (?s\<lparr>db_script := tl (tl ?x)\<rparr>)"
          "carries_out 1 (?s\<lparr>db_script := tl (tl (tl ?x))\<rparr>)"
          "carries_out 1 (?s\<lparr>db_script := tl (tl (tl (tl ?x)))\<rparr>)"
          "carries_out 1 (?s\<lparr>db_script := tl (tl (tl (tl (tl ?x))))\<rparr>)"
          "carries_out 1 (?s\<lparr>db_script := tl (tl (tl (tl (tl (tl ?x)))))\<rparr>)"
    using store by (simp_all add: carries_out_def eval_nat_numeral list_all_take_Suc)
  have g: "getAppWithPermission w appID userID
             = (Inr app, w\<lparr>db := ?s\<lparr>db_script := tl ?x\<rparr>\<rparr>)"
    using owned by (simp add: getAppWithPermission_result split: if_splits option.splits)
  let ?a = "app\<lparr>Status := ''stopped'', Replicas := 0\<rparr>"
  let ?rows1 = "map (\<lambda>a. if ID a = appID then a\<lparr>Replicas := 0\<rparr> else a)
                  (map (\<lambda>a. if ID a = appID then a\<lparr>Status := ''stopped''\<rparr> else a) (rows ?s))"
  have sc: "fst (adapter_ScaleApp ad (cluster w) (Name app) (Namespace app) 0) = None"
    using stop g by (auto simp: StopApp_def Let_def split: prod.splits option.splits)
  have run: "w1 = w\<lparr>db := ?s\<lparr>rows := ?rows1, db_script := tl (tl (tl ?x))\<rparr>,
                    cluster := snd (adapter_ScaleApp ad (cluster w) (Name app) (Namespace app) 0)\<rparr>"
    unfolding w1_def using g sc k
    by (auto simp: StopApp_def Let_def UpdateStatus_result UpdateReplicas_result
        split: prod.splits option.splits)
  have rec1: "record_of (db w1) appID = Some ?a"
    using r by (simp add: run record_of_def find_map_upd del: map_map)
  have k1: "carries_out 1 (db w1)" using k by (simp add: run)
  have g1: "getAppWithPermission (w1\<lparr>cluster := c\<rparr>) appID userID
              = (Inr ?a, w1\<lparr>cluster := c, db := (db w1)\<lparr>db_script := tl (db_script (db w1))\<rparr>\<rparr>)" for c
    using rec1 k1 u by (simp add: getAppWithPermission_result)
  have a: "a = ?a" by (simp add: a_def rec1)
  show "record_of (db w1) appID = Some a" by (simp add: a rec1)
  show "Status a = ''stopped''" "Replicas a = 0" by (simp_all add: a)
  show "fst (adapter_ScaleApp ad (cluster w) (Name a) (Namespace a) 0) = None"
    using sc by (simp add: a)
  show "cluster w1 = snd (adapter_ScaleApp ad (cluster w) (Name a) (Namespace a) 0)"
    by (simp add: run a)
  { fix c err
    assume "fst (adapter_GetAppStatus ad c (Name a) (Namespace a)) = Returned (Inl err)"
    then show "fst (GetApp ad (w1\<lparr>cluster := c\<rparr>) appID userID) = Returned (Inr a)"
      unfolding a using g1[of c] k r
      by (auto simp: GetApp_def syncAppStatus_def GetByID_result run record_of_def find_map_upd
          simp del: map_map split: prod.splits outcome.splits sum.splits) }
  { fix c st
    assume "fst (adapter_GetAppStatus ad c (Name a) (Namespace a)) = Returned (Inr st)"
    then show "fst (GetApp ad (w1\<lparr>cluster := c\<rparr>) appID userID)
                 = Returned (Inr (a\<lparr>Status := AppStatus_Status st,
                                    Replicas := (if 0 < sint (AppStatus_Replicas st)
                                                 then sint (AppStatus_Replicas st)
                                                 else 0)\<rparr>))"
      unfolding a using g1[of c] k r
      by (auto simp: GetApp_def syncAppStatus_def GetByID_result run record_of_def find_map_upd
            UpdateStatus_result UpdateReplicas_result Let_def
          simp del: map_map split: prod.splits outcome.splits sum.splits) }
qed

text \<open>
  C5, as stated, fails: \<open>GetApp\<close> runs \<open>syncAppStatus\<close>, which writes whatever the status
  query reports. \<open>StopApp\<close> on \<open>web_world\<close> succeeds and persists \<open>stopped\<close> and 0; the
  Deployment is then scaled back to three from outside (the cluster is \<open>web_cluster\<close>
  again), and \<open>GetApp\<close> returns status \<open>running\<close> and 3 replicas.
\<close>

theorem StopApp_GetApp_counterexample:
  "fst (StopApp Adapter web_world 1 7) = None
   \<and> record_of (db (snd (StopApp Adapter web_world 1 7))) 1
       = Some \<lparr>ID = 1, Name = ''web'', Image = ''x:1'', Replicas = 0, Status = ''stopped'',
               UserID = 7, Namespace = ''astro-user-7''\<rparr>
   \<and> fst (GetApp Adapter ((snd (StopApp Adapter web_world 1 7))\<lparr>cluster := web_cluster\<rparr>) 1 7)
       = Returned (Inr \<lparr>ID = 1, Name = ''web'', Image = ''x:1'', Replicas = 3,
                         Status = ''running'', UserID = 7, Namespace = ''astro-user-7''\<rparr>)"
  by (simp add: StopApp_def GetApp_def syncAppStatus_def getAppWithPermission_def store_run
        cluster_run adapter_run worlds Let_def)

text \<open>
  C5, amended. After a successful \<open>StopApp\<close> whose statements the database carries out,
  the persisted status is \<open>stopped\<close> and the persisted replica count is 0, and the adapter
  was asked to scale to 0. A following \<open>GetApp\<close> returns that record unchanged when the
  status query fails; when the query reports a status, it returns the record with the
  reported status, and with the reported replica count if that is above zero. With the
  \<open>ClientGoAdapter\<close> on the cluster as \<open>StopApp\<close> left it, and the API server answering,
  the query reports \<open>stopped\<close> and 0, so \<open>GetApp\<close> returns \<open>stopped\<close> and 0.
\<close>

theorem StopApp_then_GetApp:
  fixes ad :: "'c AppAdapter" and w :: "'c world" and k :: "k8s world"
  shows "(fst (StopApp ad w appID userID) = None \<and> carries_out 7 (db w) \<longrightarrow>
           (\<exists>a. record_of (db (snd (StopApp ad w appID userID))) appID = Some a
              \<and> Status a = ''stopped'' \<and> Replicas a = 0
              \<and> fst (adapter_ScaleApp ad (cluster w) (Name a) (Namespace a) 0) = None
              \<and> (\<forall>c err. fst (adapter_GetAppStatus ad c (Name a) (Namespace a)) = Returned (Inl err)
                   \<longrightarrow> fst (GetApp ad ((snd (StopApp ad w appID userID))\<lparr>cluster := c\<rparr>) appID userID)
                         = Returned (Inr a))
              \<and> (\<forall>c st. fst (adapter_GetAppStatus ad c (Name a) (Namespace a)) = Returned (Inr st)
                   \<longrightarrow> fst (GetApp ad ((snd (StopApp ad w appID userID))\<lparr>cluster := c\<rparr>) appID userID)
                         = Returned (Inr (a\<lparr>Status := AppStatus_Status st,
                                            Replicas := (if 0 < sint (AppStatus_Replicas st)
                                                         then sint (AppStatus_Replicas st)
                                                         else 0)\<rparr>)))))
       \<and> (fst (StopApp Adapter k appID userID) = None \<and> carries_out 7 (db k)
            \<and> api_carries_out 2 (cluster (snd (StopApp Adapter k appID userID))) \<longrightarrow>
           (\<exists>a. fst (GetApp Adapter (snd (StopApp Adapter k appID userID)) appID userID)
                   = Returned (Inr a)
              \<and> Status a = ''stopped'' \<and> Replicas a = 0))"
proof (intro conjI impI)
  let ?w1 = "snd (StopApp ad w appID userID)"
  let ?a = "the (record_of (db ?w1) appID)"
  assume a: "fst (StopApp ad w appID userID) = None \<and> carries_out 7 (db w)"
  then have a1: "fst (StopApp ad w appID userID) = None" and a2: "carries_out 7 (db w)"
    by simp_all
  note f = StopApp_then_GetApp_any_adapter[OF a1 a2]
  show "\<exists>a. record_of (db ?w1) appID = Some a
              \<and> Status a = ''stopped'' \<and> Replicas a = 0
              \<and> fst (adapter_ScaleApp ad (cluster w) (Name a) (Namespace a) 0) = None
              \<and> (\<forall>c err. fst (adapter_GetAppStatus ad c (Name a) (Namespace a)) = Returned (Inl err)
                   \<longrightarrow> fst (GetApp ad (?w1\<lparr>cluster := c\<rparr>) appID userID)
                         = Returned (Inr a))
              \<and> (\<forall>c st. fst (adapter_GetAppStatus ad c (Name a) (Namespace a)) = Returned (Inr st)
                   \<longrightarrow> fst (GetApp ad (?w1\<lparr>cluster := c\<rparr>) appID userID)
                         = Returned (Inr (a\<lparr>Status := AppStatus_Status st,
                                            Replicas := (if 0 < sint (AppStatus_Replicas st)
                                                         then sint (AppStatus_Replicas st)
                                                         else 0)\<rparr>)))"
  proof (intro exI[of _ ?a] conjI allI impI)
    show "record_of (db ?w1) appID = Some ?a" by (rule f(1))
    show "Status ?a = ''stopped''" by (rule f(2))
    show "Replicas ?a = 0" by (rule f(3))
    show "fst (adapter_ScaleApp ad (cluster w) (Name ?a) (Namespace ?a) 0) = None" by (rule f(4))
  next
    fix c err
    assume "fst (adapter_GetAppStatus ad c (Name ?a) (Namespace ?a)) = Returned (Inl err)"
    then show "fst (GetApp ad (?w1\<lparr>cluster := c\<rparr>) appID userID) = Returned (Inr ?a)"
      by (rule f(6))
  next
    fix c st
    assume "fst (adapter_GetAppStatus ad c (Name ?a) (Namespace ?a)) = Returned (Inr st)"
    then show "fst (GetApp ad (?w1\<lparr>cluster := c\<rparr>) appID userID)
                 = Returned (Inr (?a\<lparr>Status := AppStatus_Status st,
                                     Replicas := (if 0 < sint (AppStatus_Replicas st)
                                                  then sint (AppStatus_Replicas st)
                                                  else 0)\<rparr>))"
      by (rule f(7))
  qed
next
  let ?k1 = "snd (StopApp Adapter k appID userID)"
  let ?b = "the (record_of (db ?k1) appID)"
  assume a: "fst (StopApp Adapter k appID userID) = None \<and> carries_out 7 (db k)
            \<and> api_carries_out 2 (cluster ?k1)"
  then have a1: "fst (StopApp Adapter k appID userID) = None" and a2: "carries_out 7 (db k)"
    and a3: "api_carries_out 2 (cluster ?k1)"
    by simp_all
  note f = StopApp_then_GetApp_any_adapter[OF a1 a2]
  have "ClientGoAdapter_ScaleApp (cluster k) (Name ?b) (Namespace ?b) 0 = (None, cluster ?k1)"
    using f(4) f(5) by (simp add: Adapter_def prod_eq_iff)
  from ScaleApp_success[OF this]
  obtain d where "map_of (deployments (cluster ?k1)) (Namespace ?b, Name ?b)
                    = Some (d\<lparr>Spec_Replicas := Some 0\<rparr>)"
    by blast
  from GetAppStatus_stopped[OF this a3]
  obtain st where q: "fst (ClientGoAdapter_GetAppStatus (cluster ?k1) (Name ?b) (Namespace ?b))
                        = Returned (Inr st)"
    and st: "AppStatus_Status st = ''stopped''" "AppStatus_Replicas st = 0"
    by blast
  have "fst (adapter_GetAppStatus Adapter (cluster ?k1) (Name ?b) (Namespace ?b))
          = Returned (Inr st)"
    using q by (simp add: Adapter_def)
  from f(7)[OF this]
  have "fst (GetApp Adapter ?k1 appID userID)
          = Returned (Inr (?b\<lparr>Status := ''stopped'', Replicas := 0\<rparr>))"
    using st by simp
  then show "\<exists>a. fst (GetApp Adapter ?k1 appID userID) = Returned (Inr a)
              \<and> Status a = ''stopped'' \<and> Replicas a = 0"
    by simp
qed

text \<open>
  On \<open>web_world\<close>: \<open>StopApp\<close>, then \<open>GetApp\<close> on the cluster as it was left, and on a
  cluster that does not answer.
\<close>

theorem StopApp_then_GetApp_witness:
  "fst (StopApp Adapter web_world 1 7) = None
   \<and> carries_out 7 (db web_world)
   \<and> api_carries_out 2 (cluster (snd (StopApp Adapter web_world 1 7)))
   \<and> fst (GetApp Adapter (snd (StopApp Adapter web_world 1 7)) 1 7)
       = Returned (Inr (web_app\<lparr>Status := ''stopped'', Replicas := 0\<rparr>))
   \<and> fst (adapter_GetAppStatus Adapter unreachable_cluster ''web'' ''astro-user-7'')
       = Returned (Inl (Errorf FmtGetDeploymentFailed
                          (Some (StatusError (StatusReasonOther ''timeout'')))))
   \<and> fst (GetApp Adapter ((snd (StopApp Adapter web_world 1 7))\<lparr>cluster := unreachable_cluster\<rparr>)
            1 7)
       = Returned (Inr (web_app\<lparr>Status := ''stopped'', Replicas := 0\<rparr>))"
  using StopApp_then_GetApp
          [where ad = Adapter and w = web_world and k = web_world and appID = 1 and userID = 7]
  by (simp add: StopApp_def GetApp_def syncAppStatus_def getAppWithPermission_def store_run
        cluster_run adapter_run worlds Let_def)

section \<open>Which failures reach the caller\<close>

lemma getAppWithPermission_cluster: "cluster (snd (getAppWithPermission w i u)) = cluster w"
  by (simp add: getAppWithPermission_result)

lemma getAppWithPermission_typed: "fst (getAppWithPermission w i u) = Inl e \<Longrightarrow> is_typed e"
  by (auto simp: getAppWithPermission_result split: if_splits option.splits)

lemma StartApp_errors:
  "(\<forall>e. fst (StartApp ad w appID userID) = Some e \<longrightarrow> is_typed e)
   \<and> (fst (StartApp ad w appID userID) = None) =
       (\<exists>app. fst (getAppWithPermission w appID userID) = Inr app
          \<and> fst (adapter_ScaleApp ad (cluster w) (Name app) (Namespace app)
                  (word_of_int (if Replicas app = 0 then 1 else Replicas app))) = None)"
proof (cases "getAppWithPermission w appID userID")
  case (Pair r w1)
  then have c: "cluster w1 = cluster w"
    using getAppWithPermission_cluster[of w appID userID] by simp
  show ?thesis
  proof (cases r)
    case (Inl e)
    then show ?thesis
      using Pair getAppWithPermission_typed[of w appID userID e]
      by (simp add: StartApp_def)
  next
    case (Inr app)
    then show ?thesis
      using Pair c
      by (cases "adapter_ScaleApp ad (cluster w) (Name app) (Namespace app)
                   (word_of_int (if Replicas app = 0 then 1 else Replicas app))")
         (auto simp: StartApp_def Let_def split: option.splits)
  qed
qed


lemma StopApp_errors:
  "(\<forall>e. fst (StopApp ad w appID userID) = Some e \<longrightarrow> is_typed e)
   \<and> (fst (StopApp ad w appID userID) = None) =
       (\<exists>app. fst (getAppWithPermission w appID userID) = Inr app
          \<and> fst (adapter_ScaleApp ad (cluster w) (Name app) (Namespace app) 0) = None)"
proof (cases "getAppWithPermission w appID userID")
  case (Pair r w1)
  then have c: "cluster w1 = cluster w"
    using getAppWithPermission_cluster[of w appID userID] by simp
  show ?thesis
  proof (cases r)
    case (Inl e)
    then show ?thesis
      using Pair getAppWithPermission_typed[of w appID userID e]
      by (simp add: StopApp_def)
  next
    case (Inr app)
    then show ?thesis
      using Pair c
      by (cases "adapter_ScaleApp ad (cluster w) (Name app) (Namespace app) 0")
         (auto simp: StopApp_def Let_def split: option.splits)
  qed
qed

lemma RestartApp_errors:
  "(\<forall>e. fst (RestartApp ad w appID userID) = Some e \<longrightarrow> is_typed e)
   \<and> (fst (RestartApp ad w appID userID) = None) =
       (\<exists>app. fst (getAppWithPermission w appID userID) = Inr app
          \<and> fst (adapter_RestartApp ad (cluster w) (Name app) (Namespace app)) = None)"
proof (cases "getAppWithPermission w appID userID")
  case (Pair r w1)
  then have c: "cluster w1 = cluster w"
    using getAppWithPermission_cluster[of w appID userID] by simp
  show ?thesis
  proof (cases r)
    case (Inl e)
    then show ?thesis
      using Pair getAppWithPermission_typed[of w appID userID e]
      by (simp add: RestartApp_def)
  next
    case (Inr app)
    then show ?thesis
      using Pair c
      by (cases "adapter_RestartApp ad (cluster w) (Name app) (Namespace app)")
         (auto simp: RestartApp_def Let_def split: option.splits)
  qed
qed

lemma GetAppLogs_errors:
  "(\<forall>e. snd (fst (GetAppLogs ad w appID userID n)) = Some e \<longrightarrow> is_typed e)
   \<and> (snd (fst (GetAppLogs ad w appID userID n)) = None) =
       (\<exists>app. fst (getAppWithPermission w appID userID) = Inr app
          \<and> snd (fst (adapter_GetAppLogs ad (cluster w) (Name app) (Namespace app) n)) = None)"
proof (cases "getAppWithPermission w appID userID")
  case (Pair r w1)
  then have c: "cluster w1 = cluster w"
    using getAppWithPermission_cluster[of w appID userID] by simp
  show ?thesis
  proof (cases r)
    case (Inl e)
    then show ?thesis
      using Pair getAppWithPermission_typed[of w appID userID e]
      by (simp add: GetAppLogs_def)
  next
    case (Inr app)
    then show ?thesis
      using Pair c
      by (cases "adapter_GetAppLogs ad (cluster w) (Name app) (Namespace app) n")
         (auto simp: GetAppLogs_def Let_def split: option.splits prod.splits)
  qed
qed

lemma GetApps_errors:
  "(\<forall>e. fst (GetApps w userID) = Inl e \<longrightarrow> is_typed e)
   \<and> (\<exists>apps. fst (GetApps w userID) = Inr apps) = carries_out 1 (db w)"
proof (cases "db_script (db w)")
  case Nil
  then show ?thesis
    by (simp add: GetApps_def GetByUserID_def DB_statement_def carries_out_def)
next
  case (Cons f fs)
  then show ?thesis
    by (cases f)
       (simp_all add: GetApps_def GetByUserID_def DB_statement_def carries_out_def NewWithMsg_def)
qed

lemma DeleteApp_errors:
  "(\<forall>e. fst (DeleteApp ad w appID userID) = Some e \<longrightarrow> is_typed e)
   \<and> (fst (DeleteApp ad w appID userID) = None) =
       (\<exists>app. fst (getAppWithPermission w appID userID) = Inr app
          \<and> fst (adapter_DeleteApp ad (cluster w) (Name app) (Namespace app)) = None
          \<and> carries_out 2 (db w))"
proof (cases "carries_out 1 (db w)")
  case False
  then show ?thesis
    by (simp add: DeleteApp_def GetByID_result getAppWithPermission_Inr NewWithMsg_def)
next
  case c1: True
  show ?thesis
  proof (cases "record_of (db w) appID")
    case None
    then show ?thesis
      using c1 by (simp add: DeleteApp_def GetByID_result getAppWithPermission_Inr New_def)
  next
    case (Some app)
    show ?thesis
    proof (cases "UserID app = userID")
      case False
      then show ?thesis
        using c1 Some
        by (simp add: DeleteApp_def GetByID_result getAppWithPermission_Inr New_def)
    next
      case own: True
      show ?thesis
      proof (cases "adapter_DeleteApp ad (cluster w) (Name app) (Namespace app)")
        case (Pair r c)
        show ?thesis
        proof (cases r)
          case (Some err)
          then show ?thesis
            using c1 \<open>record_of (db w) appID = Some app\<close> own Pair
            by (simp add: DeleteApp_def GetByID_result getAppWithPermission_Inr NewWithMsg_def)
        next
          case None
          then show ?thesis
            using c1 \<open>record_of (db w) appID = Some app\<close> own Pair
            by (simp add: DeleteApp_def GetByID_result getAppWithPermission_Inr NewWithMsg_def
                  Delete_result carries_out_2)
        qed
      qed
    qed
  qed
qed

lemma CreateApp_errors:
  "(\<forall>e. fst (CreateApp ad w req) = Inl e \<longrightarrow> is_typed e)
   \<and> (\<exists>a. fst (CreateApp ad w req) = Inr a) =
       (carries_out 2 (db w) \<and> record_named (db w) (Req_UserID req) (Req_Name req) = None
        \<and> fst (adapter_CreateApp ad (cluster w)
                 \<lparr>AppSpec_Name = Req_Name req,
                  AppSpec_Namespace = ''astro-user-'' @ decimal (Req_UserID req),
                  AppSpec_Image = Req_Image req,
                  AppSpec_Replicas = word_of_int (Req_Replicas req),
                  AppSpec_Port = word_of_int (Req_Port req),
                  AppSpec_Labels = []\<rparr>) = None)"
proof (cases "carries_out 1 (db w)")
  case False
  then obtain m fs where "db_script (db w) = Some m # fs"
    by (cases "db_script (db w)") (auto simp: carries_out_def)
  then show ?thesis
    using False
    by (simp add: CreateApp_def GetByUserAndName_result NewWithMsg_def carries_out_2)
next
  case c1: True
  let ?s1 = "(db w)\<lparr>db_script := tl (db_script (db w))\<rparr>"
  have g: "GetByUserAndName (db w) (Req_UserID req) (Req_Name req)
      = (case record_named (db w) (Req_UserID req) (Req_Name req) of
           None \<Rightarrow> Inl ErrRecordNotFound | Some a \<Rightarrow> Inr a, ?s1)"
    using c1 by (auto simp: GetByUserAndName_result carries_out_def split: list.splits option.splits)
  show ?thesis
  proof (cases "record_named (db w) (Req_UserID req) (Req_Name req)")
    case (Some a)
    then show ?thesis using g by (simp add: CreateApp_def New_def)
  next
    case None
    let ?app = "\<lparr>ID = 0, Name = Req_Name req, Image = Req_Image req,
                 Replicas = Req_Replicas req, Status = ''pending'',
                 UserID = Req_UserID req,
                 Namespace = ''astro-user-'' @ decimal (Req_UserID req)\<rparr>"
    show ?thesis
    proof (cases "carries_out 1 ?s1")
      case False
      from Create_fails[OF this, of ?app]
      obtain m where "Create ?s1 ?app = ((Some (DBError m), ?app), ?s1\<lparr>db_script := tl (db_script ?s1)\<rparr>)"
        by blast
      then show ?thesis
        using g None False c1
        by (simp add: CreateApp_def NewWithMsg_def Let_def carries_out_2)
    next
      case c2: True
      note cr = Create_succeeds[OF c2, of ?app]
      show ?thesis
      proof (cases "adapter_CreateApp ad (cluster w)
                 \<lparr>AppSpec_Name = Req_Name req,
                  AppSpec_Namespace = ''astro-user-'' @ decimal (Req_UserID req),
                  AppSpec_Image = Req_Image req,
                  AppSpec_Replicas = word_of_int (Req_Replicas req),
                  AppSpec_Port = word_of_int (Req_Port req),
                  AppSpec_Labels = []\<rparr>")
        case (Pair r c)
        then show ?thesis
          using g None c1 c2 cr
          by (cases r) (simp_all add: CreateApp_def NewWithMsg_def Let_def carries_out_2)
      qed
    qed
  qed
qed

lemma StartApp_results:
  "(\<forall>e. fst (getAppWithPermission w appID userID) = Inl e \<longrightarrow>
        fst (StartApp ad w appID userID) = Some e)
   \<and> (\<forall>app err. fst (getAppWithPermission w appID userID) = Inr app
          \<and> fst (adapter_ScaleApp ad (cluster w) (Name app) (Namespace app)
                  (word_of_int (if Replicas app = 0 then 1 else Replicas app))) = Some err \<longrightarrow>
        fst (StartApp ad w appID userID)
          = Some (Typed \<lparr>Code = ErrK8sOperation, Msg = ErrorText err\<rparr>))"
proof (cases "getAppWithPermission w appID userID")
  case (Pair r w1)
  then have c: "cluster w1 = cluster w"
    using getAppWithPermission_cluster[of w appID userID] by simp
  show ?thesis
  proof (cases r)
    case (Inl e)
    then show ?thesis using Pair by (simp add: StartApp_def)
  next
    case (Inr app)
    then show ?thesis
      using Pair c
      by (cases "adapter_ScaleApp ad (cluster w) (Name app) (Namespace app)
                   (word_of_int (if Replicas app = 0 then 1 else Replicas app))")
         (auto simp: StartApp_def Let_def NewWithMsg_def split: option.splits)
  qed
qed

lemma StopApp_results:
  "(\<forall>e. fst (getAppWithPermission w appID userID) = Inl e \<longrightarrow>
        fst (StopApp ad w appID userID) = Some e)
   \<and> (\<forall>app err. fst (getAppWithPermission w appID userID) = Inr app
          \<and> fst (adapter_ScaleApp ad (cluster w) (Name app) (Namespace app) 0) = Some err \<longrightarrow>
        fst (StopApp ad w appID userID)
          = Some (Typed \<lparr>Code = ErrK8sOperation, Msg = ErrorText err\<rparr>))"
proof (cases "getAppWithPermission w appID userID")
  case (Pair r w1)
  then have c: "cluster w1 = cluster w"
    using getAppWithPermission_cluster[of w appID userID] by simp
  show ?thesis
  proof (cases r)
    case (Inl e)
    then show ?thesis using Pair by (simp add: StopApp_def)
  next
    case (Inr app)
    then show ?thesis
      using Pair c
      by (cases "adapter_ScaleApp ad (cluster w) (Name app) (Namespace app) 0")
         (auto simp: StopApp_def Let_def NewWithMsg_def split: option.splits)
  qed
qed

lemma RestartApp_results:
  "(\<forall>e. fst (getAppWithPermission w appID userID) = Inl e \<longrightarrow>
        fst (RestartApp ad w appID userID) = Some e)
   \<and> (\<forall>app err. fst (getAppWithPermission w appID userID) = Inr app
          \<and> fst (adapter_RestartApp ad (cluster w) (Name app) (Namespace app)) = Some err \<longrightarrow>
        fst (RestartApp ad w appID userID)
          = Some (Typed \<lparr>Code = ErrK8sOperation, Msg = ErrorText err\<rparr>))"
proof (cases "getAppWithPermission w appID userID")
  case (Pair r w1)
  then have c: "cluster w1 = cluster w"
    using getAppWithPermission_cluster[of w appID userID] by simp
  show ?thesis
  proof (cases r)
    case (Inl e)
    then show ?thesis using Pair by (simp add: RestartApp_def)
  next
    case (Inr app)
    then show ?thesis
      using Pair c
      by (cases "adapter_RestartApp ad (cluster w) (Name app) (Namespace app)")
         (auto simp: RestartApp_def Let_def NewWithMsg_def split: option.splits)
  qed
qed

lemma GetAppLogs_results:
  "(\<forall>e. fst (getAppWithPermission w appID userID) = Inl e \<longrightarrow>
        fst (GetAppLogs ad w appID userID n) = ([], Some e))
   \<and> (\<forall>app logs err. fst (getAppWithPermission w appID userID) = Inr app
          \<and> fst (adapter_GetAppLogs ad (cluster w) (Name app) (Namespace app) n)
              = (logs, Some err) \<longrightarrow>
        fst (GetAppLogs ad w appID userID n)
          = ([], Some (Typed \<lparr>Code = ErrK8sOperation, Msg = ErrorText err\<rparr>)))"
proof (cases "getAppWithPermission w appID userID")
  case (Pair r w1)
  then have c: "cluster w1 = cluster w"
    using getAppWithPermission_cluster[of w appID userID] by simp
  show ?thesis
  proof (cases r)
    case (Inl e)
    then show ?thesis using Pair by (simp add: GetAppLogs_def)
  next
    case (Inr app)
    then show ?thesis
      using Pair c
      by (cases "adapter_GetAppLogs ad (cluster w) (Name app) (Namespace app) n")
         (auto simp: GetAppLogs_def Let_def NewWithMsg_def split: option.splits prod.splits)
  qed
qed

lemma GetApps_results:
  "\<not> carries_out 1 (db w) \<longrightarrow>
     (\<exists>m. fst (GetApps w userID)
            = Inl (Typed \<lparr>Code = ErrDatabase, Msg = ErrorText (DBError m)\<rparr>))"
proof (cases "db_script (db w)")
  case Nil
  then show ?thesis by (simp add: carries_out_def)
next
  case (Cons f fs)
  then show ?thesis
    by (cases f)
       (simp_all add: GetApps_def GetByUserID_def DB_statement_def carries_out_def NewWithMsg_def)
qed

lemma DeleteApp_results:
  "(\<forall>e. fst (getAppWithPermission w appID userID) = Inl e \<longrightarrow>
        fst (DeleteApp ad w appID userID) = Some e)
   \<and> (\<forall>app err. fst (getAppWithPermission w appID userID) = Inr app
          \<and> fst (adapter_DeleteApp ad (cluster w) (Name app) (Namespace app)) = Some err \<longrightarrow>
        fst (DeleteApp ad w appID userID)
          = Some (Typed \<lparr>Code = ErrK8sOperation, Msg = ErrorText err\<rparr>))
   \<and> (\<forall>app. fst (getAppWithPermission w appID userID) = Inr app
          \<and> fst (adapter_DeleteApp ad (cluster w) (Name app) (Namespace app)) = None
          \<and> \<not> carries_out 2 (db w) \<longrightarrow>
        (\<exists>m. fst (DeleteApp ad w appID userID)
               = Some (Typed \<lparr>Code = ErrDatabase, Msg = ErrorText (DBError m)\<rparr>)))"
proof (cases "carries_out 1 (db w)")
  case False
  then show ?thesis
    by (simp add: DeleteApp_def GetByID_result getAppWithPermission_result NewWithMsg_def)
next
  case c1: True
  show ?thesis
  proof (cases "record_of (db w) appID")
    case None
    then show ?thesis
      using c1 by (simp add: DeleteApp_def GetByID_result getAppWithPermission_result New_def)
  next
    case (Some app)
    show ?thesis
    proof (cases "UserID app = userID")
      case False
      then show ?thesis
        using c1 Some
        by (simp add: DeleteApp_def GetByID_result getAppWithPermission_result New_def)
    next
      case own: True
      show ?thesis
      proof (cases "adapter_DeleteApp ad (cluster w) (Name app) (Namespace app)")
        case (Pair r c)
        show ?thesis
        proof (cases r)
          case (Some err)
          then show ?thesis
            using c1 \<open>record_of (db w) appID = Some app\<close> own Pair
            by (simp add: DeleteApp_def GetByID_result getAppWithPermission_result NewWithMsg_def)
        next
          case None
          then show ?thesis
            using c1 \<open>record_of (db w) appID = Some app\<close> own Pair
            by (simp add: DeleteApp_def GetByID_result getAppWithPermission_result NewWithMsg_def
                  Delete_result carries_out_2)
        qed
      qed
    qed
  qed
qed

lemma CreateApp_results:
  "(\<not> carries_out 1 (db w) \<longrightarrow>
      (\<exists>m. fst (CreateApp ad w req)
             = Inl (Typed \<lparr>Code = ErrDatabase, Msg = ErrorText (DBError m)\<rparr>)))
   \<and> (\<forall>a. carries_out 1 (db w)
          \<and> record_named (db w) (Req_UserID req) (Req_Name req) = Some a \<longrightarrow>
        fst (CreateApp ad w req)
          = Inl (Typed \<lparr>Code = ErrAppExists, Msg = Message ErrAppExists\<rparr>))
   \<and> (carries_out 1 (db w) \<and> record_named (db w) (Req_UserID req) (Req_Name req) = None
        \<and> \<not> carries_out 2 (db w) \<longrightarrow>
      (\<exists>m. fst (CreateApp ad w req)
             = Inl (Typed \<lparr>Code = ErrDatabase, Msg = ErrorText (DBError m)\<rparr>)))
   \<and> (\<forall>err. carries_out 2 (db w)
          \<and> record_named (db w) (Req_UserID req) (Req_Name req) = None
          \<and> fst (adapter_CreateApp ad (cluster w)
                   \<lparr>AppSpec_Name = Req_Name req,
                    AppSpec_Namespace = ''astro-user-'' @ decimal (Req_UserID req),
                    AppSpec_Image = Req_Image req,
                    AppSpec_Replicas = word_of_int (Req_Replicas req),
                    AppSpec_Port = word_of_int (Req_Port req),
                    AppSpec_Labels = []\<rparr>) = Some err \<longrightarrow>
        fst (CreateApp ad w req)
          = Inl (Typed \<lparr>Code = ErrAppCreateFailed, Msg = ErrorText err\<rparr>))"
proof (cases "carries_out 1 (db w)")
  case False
  then obtain m fs where "db_script (db w) = Some m # fs"
    by (cases "db_script (db w)") (auto simp: carries_out_def)
  then show ?thesis
    using False
    by (simp add: CreateApp_def GetByUserAndName_result NewWithMsg_def carries_out_2)
next
  case c1: True
  let ?s1 = "(db w)\<lparr>db_script := tl (db_script (db w))\<rparr>"
  have g: "GetByUserAndName (db w) (Req_UserID req) (Req_Name req)
      = (case record_named (db w) (Req_UserID req) (Req_Name req) of
           None \<Rightarrow> Inl ErrRecordNotFound | Some a \<Rightarrow> Inr a, ?s1)"
    using c1 by (auto simp: GetByUserAndName_result carries_out_def split: list.splits option.splits)
  show ?thesis
  proof (cases "record_named (db w) (Req_UserID req) (Req_Name req)")
    case (Some a)
    then show ?thesis using g c1 by (simp add: CreateApp_def New_def)
  next
    case None
    let ?app = "\<lparr>ID = 0, Name = Req_Name req, Image = Req_Image req,
                 Replicas = Req_Replicas req, Status = ''pending'',
                 UserID = Req_UserID req,
                 Namespace = ''astro-user-'' @ decimal (Req_UserID req)\<rparr>"
    show ?thesis
    proof (cases "carries_out 1 ?s1")
      case False
      from Create_fails[OF this, of ?app]
      obtain m where "Create ?s1 ?app = ((Some (DBError m), ?app), ?s1\<lparr>db_script := tl (db_script ?s1)\<rparr>)"
        by blast
      then show ?thesis
        using g None False c1
        by (simp add: CreateApp_def NewWithMsg_def Let_def carries_out_2)
    next
      case c2: True
      note cr = Create_succeeds[OF c2, of ?app]
      show ?thesis
      proof (cases "adapter_CreateApp ad (cluster w)
                 \<lparr>AppSpec_Name = Req_Name req,
                  AppSpec_Namespace = ''astro-user-'' @ decimal (Req_UserID req),
                  AppSpec_Image = Req_Image req,
                  AppSpec_Replicas = word_of_int (Req_Replicas req),
                  AppSpec_Port = word_of_int (Req_Port req),
                  AppSpec_Labels = []\<rparr>")
        case (Pair r c)
        then show ?thesis
          using g None c1 c2 cr
          by (cases r) (simp_all add: CreateApp_def NewWithMsg_def Let_def carries_out_2)
      qed
    qed
  qed
qed

lemma syncAppStatus_keeps_record:
  "record_of (db w) i = Some a \<Longrightarrow>
     \<exists>a'. record_of (db (snd (syncAppStatus ad w i n ns))) i = Some a'"
  by (cases "adapter_GetAppStatus ad (cluster w) n ns")
     (auto simp: syncAppStatus_def Let_def record_of_UpdateStatus record_of_UpdateReplicas
      split: outcome.splits sum.splits)

lemma syncAppStatus_returns:
  "fst (syncAppStatus ad w i n ns) = Panicked
     \<longleftrightarrow> fst (adapter_GetAppStatus ad (cluster w) n ns) = Panicked"
  by (cases "adapter_GetAppStatus ad (cluster w) n ns")
     (auto simp: syncAppStatus_def Let_def split: outcome.splits sum.splits)

lemma syncAppStatus_query_error:
  "fst (adapter_GetAppStatus ad (cluster w) n ns) = Returned (Inl err) \<Longrightarrow>
     db (snd (syncAppStatus ad w i n ns)) = db w"
  by (cases "adapter_GetAppStatus ad (cluster w) n ns")
     (auto simp: syncAppStatus_def Let_def split: outcome.splits sum.splits)

lemma GetApp_results:
  "(\<forall>e. fst (getAppWithPermission w appID userID) = Inl e \<longrightarrow>
        is_typed e \<and> fst (GetApp ad w appID userID) = Returned (Inl e))
   \<and> (\<forall>app. fst (getAppWithPermission w appID userID) = Inr app
          \<and> fst (adapter_GetAppStatus ad (cluster w) (Name app) (Namespace app)) \<noteq> Panicked
          \<and> carries_out 1
               (db (snd (syncAppStatus ad (snd (getAppWithPermission w appID userID)) appID
                           (Name app) (Namespace app)))) \<longrightarrow>
        (\<exists>a. fst (GetApp ad w appID userID) = Returned (Inr a)
            \<and> record_of
                 (db (snd (syncAppStatus ad (snd (getAppWithPermission w appID userID)) appID
                             (Name app) (Namespace app)))) appID = Some a))
   \<and> (\<forall>app err. fst (getAppWithPermission w appID userID) = Inr app
          \<and> fst (adapter_GetAppStatus ad (cluster w) (Name app) (Namespace app))
              = Returned (Inl err)
          \<and> carries_out 2 (db w) \<longrightarrow>
        fst (GetApp ad w appID userID) = Returned (Inr app))"
proof (cases "getAppWithPermission w appID userID")
  case (Pair r w1)
  then have c: "cluster w1 = cluster w"
    using getAppWithPermission_cluster[of w appID userID] by simp
  show ?thesis
  proof (cases r)
    case (Inl e)
    then show ?thesis
      using Pair getAppWithPermission_typed[of w appID userID e]
      by (simp add: GetApp_def)
  next
    case (Inr app)
    then have l: "fst (getAppWithPermission w appID userID) = Inr app" using Pair by simp
    then have r0: "record_of (db w) appID = Some app" and c1: "carries_out 1 (db w)"
      by (simp_all add: getAppWithPermission_Inr)
    have w1: "w1 = w\<lparr>db := (db w)\<lparr>db_script := tl (db_script (db w))\<rparr>\<rparr>"
      using Pair by (simp add: getAppWithPermission_result)
    have r1: "record_of (db w1) appID = Some app" using r0 by (simp add: w1)
    let ?w2 = "snd (syncAppStatus ad w1 appID (Name app) (Namespace app))"
    have part2: "\<exists>a. fst (GetApp ad w appID userID) = Returned (Inr a)
                   \<and> record_of (db ?w2) appID = Some a"
      if np: "fst (adapter_GetAppStatus ad (cluster w) (Name app) (Namespace app)) \<noteq> Panicked"
      and ok: "carries_out 1 (db ?w2)"
    proof -
      obtain ro w2 where s: "syncAppStatus ad w1 appID (Name app) (Namespace app) = (ro, w2)"
        by (cases "syncAppStatus ad w1 appID (Name app) (Namespace app)")
      have w2: "?w2 = w2" by (simp add: s)
      obtain a where a: "record_of (db w2) appID = Some a"
        using syncAppStatus_keeps_record[OF r1, of ad "Name app" "Namespace app"] w2 by auto
      have "ro \<noteq> Panicked"
        using np syncAppStatus_returns[of ad w1 appID "Name app" "Namespace app"] c s by simp
      then obtain u where ro: "ro = Returned u" by (cases ro) auto
      have k: "carries_out 1 (db w2)" using ok w2 by simp
      have "fst (GetApp ad w appID userID) = Returned (Inr a)"
        using Pair Inr s ro a k by (simp add: GetApp_def GetByID_result)
      moreover have "record_of (db ?w2) appID = Some a" using a w2 by simp
      ultimately show ?thesis by simp
    qed
    have part3: "fst (GetApp ad w appID userID) = Returned (Inr app)"
      if q: "fst (adapter_GetAppStatus ad (cluster w) (Name app) (Namespace app))
               = Returned (Inl err)"
      and ok: "carries_out 2 (db w)" for err
    proof -
      have d: "db ?w2 = db w1"
        using syncAppStatus_query_error[of ad w1 "Name app" "Namespace app" err appID] q c
        by simp
      have "carries_out 1 (db w1)" using ok by (simp add: w1 carries_out_2)
      then have "carries_out 1 (db ?w2)" by (simp only: d)
      moreover have "fst (adapter_GetAppStatus ad (cluster w) (Name app) (Namespace app)) \<noteq> Panicked"
        using q by simp
      ultimately obtain a where "fst (GetApp ad w appID userID) = Returned (Inr a)"
        and "record_of (db ?w2) appID = Some a"
        using part2 by blast
      then show ?thesis using r1 d by simp
    qed
    show ?thesis
      using l Pair part2 part3 by auto
  qed
qed

text \<open>
  C9, as stated, fails: \<open>StartApp\<close>, \<open>StopApp\<close> and \<open>RestartApp\<close> drop the results of
  the updates that follow the cluster call (\<open>_ =\<close>). In \<open>flaky_world\<close> the database
  fails the status update of \<open>StopApp\<close>; \<open>StopApp\<close> returns no error, and the record is
  still \<open>running\<close> with 3 replicas.
\<close>

theorem StopApp_discards_failure_counterexample:
  "fst (UpdateStatus (snd (GetByID (db flaky_world) 1)) 1 ''stopped'')
     = Some (DBError ''connection lost'')
   \<and> fst (StopApp Adapter flaky_world 1 7) = None
   \<and> record_of (db (snd (StopApp Adapter flaky_world 1 7))) 1
       = Some \<lparr>ID = 1, Name = ''web'', Image = ''x:1'', Replicas = 3, Status = ''running'',
               UserID = 7, Namespace = ''astro-user-7''\<rparr>"
  by (simp add: StopApp_def getAppWithPermission_def store_run cluster_run adapter_run worlds
        Let_def)

text \<open>
  C9, amended. Every error that \<open>CreateApp\<close>, \<open>DeleteApp\<close>, \<open>StartApp\<close>, \<open>StopApp\<close>,
  \<open>RestartApp\<close>, \<open>GetApps\<close> and \<open>GetAppLogs\<close> return is a typed error.
  \<open>StartApp\<close>, \<open>StopApp\<close>, \<open>RestartApp\<close>, \<open>DeleteApp\<close> and \<open>GetAppLogs\<close> return a failure of
  the load (the read and the ownership check) as the typed error of the load, and a
  failure of the cluster call as \<open>ErrK8sOperation\<close> with the text of the adapter's error;
  \<open>DeleteApp\<close> returns a failure of its record delete as \<open>ErrDatabase\<close>. \<open>CreateApp\<close>
  returns a failure of its lookup or of its insert as \<open>ErrDatabase\<close>, \<open>ErrAppExists\<close> when
  the lookup finds a record, and a failure of the cluster call as \<open>ErrAppCreateFailed\<close>
  with the text of the adapter's error, whatever the compensating delete does. \<open>GetApps\<close>
  returns a failure of its read as \<open>ErrDatabase\<close>. \<open>StartApp\<close>, \<open>StopApp\<close> and
  \<open>RestartApp\<close> succeed exactly when the load and the cluster call succeed: a failure of
  the updates that follow the cluster call is discarded.
  \<open>GetApp\<close> returns a failure of its load as the typed error of the load. A failure
  inside its synchronisation (the status query, the updates) is absorbed: whenever the
  status query returns and the read after the synchronisation is carried out, \<open>GetApp\<close>
  returns the record as the synchronisation left it; after a failed status query, with
  both reads carried out, that is the record as it was loaded.
\<close>

theorem service_errors:
  fixes ad :: "'c AppAdapter" and w :: "'c world"
  shows "((\<forall>e. fst (StartApp ad w appID userID) = Some e \<longrightarrow> is_typed e)
          \<and> (fst (StartApp ad w appID userID) = None) =
              (\<exists>app. fst (getAppWithPermission w appID userID) = Inr app
                 \<and> fst (adapter_ScaleApp ad (cluster w) (Name app) (Namespace app)
                         (word_of_int (if Replicas app = 0 then 1 else Replicas app))) = None))
       \<and> ((\<forall>e. fst (getAppWithPermission w appID userID) = Inl e \<longrightarrow>
                fst (StartApp ad w appID userID) = Some e)
          \<and> (\<forall>app err. fst (getAppWithPermission w appID userID) = Inr app
                 \<and> fst (adapter_ScaleApp ad (cluster w) (Name app) (Namespace app)
                         (word_of_int (if Replicas app = 0 then 1 else Replicas app)))
                     = Some err \<longrightarrow>
                fst (StartApp ad w appID userID)
                  = Some (Typed \<lparr>Code = ErrK8sOperation, Msg = ErrorText err\<rparr>)))
       \<and> ((\<forall>e. fst (StopApp ad w appID userID) = Some e \<longrightarrow> is_typed e)
          \<and> (fst (StopApp ad w appID userID) = None) =
              (\<exists>app. fst (getAppWithPermission w appID userID) = Inr app
                 \<and> fst (adapter_ScaleApp ad (cluster w) (Name app) (Namespace app) 0) = None))
       \<and> ((\<forall>e. fst (getAppWithPermission w appID userID) = Inl e \<longrightarrow>
                fst (StopApp ad w appID userID) = Some e)
          \<and> (\<forall>app err. fst (getAppWithPermission w appID userID) = Inr app
                 \<and> fst (adapter_ScaleApp ad (cluster w) (Name app) (Namespace app) 0)
                     = Some err \<longrightarrow>
                fst (StopApp ad w appID userID)
                  = Some (Typed \<lparr>Code = ErrK8sOperation, Msg = ErrorText err\<rparr>)))
       \<and> ((\<forall>e. fst (RestartApp ad w appID userID) = Some e \<longrightarrow> is_typed e)
          \<and> (fst (RestartApp ad w appID userID) = None) =
              (\<exists>app. fst (getAppWithPermission w appID userID) = Inr app
                 \<and> fst (adapter_RestartApp ad (cluster w) (Name app) (Namespace app)) = None))
       \<and> ((\<forall>e. fst (getAppWithPermission w appID userID) = Inl e \<longrightarrow>
                fst (RestartApp ad w appID userID) = Some e)
          \<and> (\<forall>app err. fst (getAppWithPermission w appID userID) = Inr app
                 \<and> fst (adapter_RestartApp ad (cluster w) (Name app) (Namespace app))
                     = Some err \<longrightarrow>
                fst (RestartApp ad w appID userID)
                  = Some (Typed \<lparr>Code = ErrK8sOperation, Msg = ErrorText err\<rparr>)))
       \<and> ((\<forall>e. fst (DeleteApp ad w appID userID) = Some e \<longrightarrow> is_typed e)
          \<and> (fst (DeleteApp ad w appID userID) = None) =
              (\<exists>app. fst (getAppWithPermission w appID userID) = Inr app
                 \<and> fst (adapter_DeleteApp ad (cluster w) (Name app) (Namespace app)) = None
                 \<and> carries_out 2 (db w)))
       \<and> ((\<forall>e. fst (getAppWithPermission w appID userID) = Inl e \<longrightarrow>
                fst (DeleteApp ad w appID userID) = Some e)
          \<and> (\<forall>app err. fst (getAppWithPermission w appID userID) = Inr app
                 \<and> fst (adapter_DeleteApp ad (cluster w) (Name app) (Namespace app))
                     = Some err \<longrightarrow>
                fst (DeleteApp ad w appID userID)
                  = Some (Typed \<lparr>Code = ErrK8sOperation, Msg = ErrorText err\<rparr>))
          \<and> (\<forall>app. fst (getAppWithPermission w appID userID) = Inr app
                 \<and> fst (adapter_DeleteApp ad (cluster w) (Name app) (Namespace app)) = None
                 \<and> \<not> carries_out 2 (db w) \<longrightarrow>
                (\<exists>m. fst (DeleteApp ad w appID userID)
                       = Some (Typed \<lparr>Code = ErrDatabase, Msg = ErrorText (DBError m)\<rparr>))))
       \<and> ((\<forall>e. fst (CreateApp ad w req) = Inl e \<longrightarrow> is_typed e)
          \<and> (\<exists>a. fst (CreateApp ad w req) = Inr a) =
              (carries_out 2 (db w)
               \<and> record_named (db w) (Req_UserID req) (Req_Name req) = None
               \<and> fst (adapter_CreateApp ad (cluster w)
                        \<lparr>AppSpec_Name = Req_Name req,
                         AppSpec_Namespace = ''astro-user-'' @ decimal (Req_UserID req),
                         AppSpec_Image = Req_Image req,
                         AppSpec_Replicas = word_of_int (Req_Replicas req),
                         AppSpec_Port = word_of_int (Req_Port req),
                         AppSpec_Labels = []\<rparr>) = None))
       \<and> ((\<not> carries_out 1 (db w) \<longrightarrow>
              (\<exists>m. fst (CreateApp ad w req)
                     = Inl (Typed \<lparr>Code = ErrDatabase, Msg = ErrorText (DBError m)\<rparr>)))
          \<and> (\<forall>a. carries_out 1 (db w)
                 \<and> record_named (db w) (Req_UserID req) (Req_Name req) = Some a \<longrightarrow>
                fst (CreateApp ad w req)
                  = Inl (Typed \<lparr>Code = ErrAppExists, Msg = Message ErrAppExists\<rparr>))
          \<and> (carries_out 1 (db w)
               \<and> record_named (db w) (Req_UserID req) (Req_Name req) = None
               \<and> \<not> carries_out 2 (db w) \<longrightarrow>
              (\<exists>m. fst (CreateApp ad w req)
                     = Inl (Typed \<lparr>Code = ErrDatabase, Msg = ErrorText (DBError m)\<rparr>)))
          \<and> (\<forall>err. carries_out 2 (db w)
                 \<and> record_named (db w) (Req_UserID req) (Req_Name req) = None
                 \<and> fst (adapter_CreateApp ad (cluster w)
                          \<lparr>AppSpec_Name = Req_Name req,
                           AppSpec_Namespace = ''astro-user-'' @ decimal (Req_UserID req),
                           AppSpec_Image = Req_Image req,
                           AppSpec_Replicas = word_of_int (Req_Replicas req),
                           AppSpec_Port = word_of_int (Req_Port req),
                           AppSpec_Labels = []\<rparr>) = Some err \<longrightarrow>
                fst (CreateApp ad w req)
                  = Inl (Typed \<lparr>Code = ErrAppCreateFailed, Msg = ErrorText err\<rparr>)))
       \<and> ((\<forall>e. fst (GetApps w userID) = Inl e \<longrightarrow> is_typed e)
          \<and> (\<exists>apps. fst (GetApps w userID) = Inr apps) = carries_out 1 (db w))
       \<and> (\<not> carries_out 1 (db w) \<longrightarrow>
            (\<exists>m. fst (GetApps w userID)
                   = Inl (Typed \<lparr>Code = ErrDatabase, Msg = ErrorText (DBError m)\<rparr>)))
       \<and> ((\<forall>e. snd (fst (GetAppLogs ad w appID userID n)) = Some e \<longrightarrow> is_typed e)
          \<and> (snd (fst (GetAppLogs ad w appID userID n)) = None) =
              (\<exists>app. fst (getAppWithPermission w appID userID) = Inr app
                 \<and> snd (fst (adapter_GetAppLogs ad (cluster w) (Name app) (Namespace app) n))
                     = None))
       \<and> ((\<forall>e. fst (getAppWithPermission w appID userID) = Inl e \<longrightarrow>
                fst (GetAppLogs ad w appID userID n) = ([], Some e))
          \<and> (\<forall>app logs err. fst (getAppWithPermission w appID userID) = Inr app
                 \<and> fst (adapter_GetAppLogs ad (cluster w) (Name app) (Namespace app) n)
                     = (logs, Some err) \<longrightarrow>
                fst (GetAppLogs ad w appID userID n)
                  = ([], Some (Typed \<lparr>Code = ErrK8sOperation, Msg = ErrorText err\<rparr>))))
       \<and> ((\<forall>e. fst (getAppWithPermission w appID userID) = Inl e \<longrightarrow>
                is_typed e \<and> fst (GetApp ad w appID userID) = Returned (Inl e))
          \<and> (\<forall>app. fst (getAppWithPermission w appID userID) = Inr app
                 \<and> fst (adapter_GetAppStatus ad (cluster w) (Name app) (Namespace app))
                     \<noteq> Panicked
                 \<and> carries_out 1
                      (db (snd (syncAppStatus ad (snd (getAppWithPermission w appID userID))
                                  appID (Name app) (Namespace app)))) \<longrightarrow>
                (\<exists>a. fst (GetApp ad w appID userID) = Returned (Inr a)
                    \<and> record_of
                         (db (snd (syncAppStatus ad (snd (getAppWithPermission w appID userID))
                                     appID (Name app) (Namespace app)))) appID = Some a))
          \<and> (\<forall>app err. fst (getAppWithPermission w appID userID) = Inr app
                 \<and> fst (adapter_GetAppStatus ad (cluster w) (Name app) (Namespace app))
                     = Returned (Inl err)
                 \<and> carries_out 2 (db w) \<longrightarrow>
                fst (GetApp ad w appID userID) = Returned (Inr app)))"
  by (rule conjI, rule StartApp_errors, rule conjI, rule StartApp_results,
      rule conjI, rule StopApp_errors, rule conjI, rule StopApp_results,
      rule conjI, rule RestartApp_errors, rule conjI, rule RestartApp_results,
      rule conjI, rule DeleteApp_errors, rule conjI, rule DeleteApp_results,
      rule conjI, rule CreateApp_errors, rule conjI, rule CreateApp_results,
      rule conjI, rule GetApps_errors, rule conjI, rule GetApps_results,
      rule conjI, rule GetAppLogs_errors, rule conjI, rule GetAppLogs_results,
      rule GetApp_results)

text \<open>
  In \<open>flaky_world\<close> the load and the cluster call of \<open>StopApp\<close> succeed, and so does
  \<open>StopApp\<close>, although the database fails the two updates. In \<open>outage_world\<close> the cluster
  call of \<open>CreateApp\<close> fails and so does the compensating delete; the result is the
  cluster error. With the API server unreachable the status query of \<open>GetApp\<close> fails, and
  \<open>GetApp\<close> returns the record. For a caller who does not own the record, the load fails
  with \<open>ErrForbidden\<close>, and \<open>GetApp\<close> returns that error.
\<close>

theorem service_errors_witness:
  "fst (getAppWithPermission flaky_world 1 7) = Inr web_app
   \<and> fst (adapter_ScaleApp Adapter (cluster flaky_world) ''web'' ''astro-user-7'' 0) = None
   \<and> fst (UpdateStatus (snd (GetByID (db flaky_world) 1)) 1 ''stopped'')
       = Some (DBError ''connection lost'')
   \<and> fst (StopApp Adapter flaky_world 1 7) = None
   \<and> carries_out 2 (db outage_world)
   \<and> record_named (db outage_world) 7 ''web'' = None
   \<and> fst (CreateApp Adapter outage_world web_request)
       = Inl (Typed \<lparr>Code = ErrAppCreateFailed,
                     Msg = ErrorText (Errorf FmtCreateNamespaceFailed
                             (Some (StatusError (StatusReasonOther ''connection refused''))))\<rparr>)
   \<and> record_named (db (snd (CreateApp Adapter outage_world web_request))) 7 ''web''
       = Some \<lparr>ID = 1, Name = ''web'', Image = ''x:1'', Replicas = 3, Status = ''pending'',
               UserID = 7, Namespace = ''astro-user-7''\<rparr>
   \<and> fst (getAppWithPermission (web_world\<lparr>cluster := unreachable_cluster\<rparr>) 1 7) = Inr web_app
   \<and> fst (adapter_GetAppStatus Adapter unreachable_cluster ''web'' ''astro-user-7'')
       = Returned (Inl (Errorf FmtGetDeploymentFailed
                          (Some (StatusError (StatusReasonOther ''timeout'')))))
   \<and> fst (GetApp Adapter (web_world\<lparr>cluster := unreachable_cluster\<rparr>) 1 7)
       = Returned (Inr web_app)
   \<and> fst (getAppWithPermission web_world 1 8)
       = Inl (Typed \<lparr>Code = ErrForbidden, Msg = Message ErrForbidden\<rparr>)
   \<and> fst (GetApp Adapter web_world 1 8)
       = Returned (Inl (Typed \<lparr>Code = ErrForbidden, Msg = Message ErrForbidden\<rparr>))"
proof -
  have load_flaky: "fst (getAppWithPermission flaky_world 1 7) = Inr web_app"
    by (simp add: getAppWithPermission_def store_run worlds)
  have scale: "fst (adapter_ScaleApp Adapter (cluster flaky_world) (Name web_app)
                      (Namespace web_app) 0) = None"
    by (simp add: cluster_run adapter_run worlds)
  have scale': "fst (adapter_ScaleApp Adapter (cluster flaky_world) ''web'' ''astro-user-7'' 0)
                  = None"
    using scale by (simp add: web_app_def)
  have update: "fst (UpdateStatus (snd (GetByID (db flaky_world) 1)) 1 ''stopped'')
                  = Some (DBError ''connection lost'')"
    by (simp add: store_run worlds)
  have stop: "fst (StopApp Adapter flaky_world 1 7) = None"
    using service_errors
            [where ad = Adapter and w = flaky_world and appID = 1 and userID = 7,
             THEN conjunct2, THEN conjunct2, THEN conjunct1, THEN conjunct2]
          load_flaky scale
    by blast
  have statements: "carries_out 2 (db outage_world)"
    by (simp add: store_run worlds)
  have lookup: "record_named (db outage_world) (Req_UserID web_request) (Req_Name web_request)
                  = None"
    by (simp add: store_run worlds)
  have lookup': "record_named (db outage_world) 7 ''web'' = None"
    using lookup by (simp add: web_request_def)
  have cluster_call:
    "fst (adapter_CreateApp Adapter (cluster outage_world)
            \<lparr>AppSpec_Name = Req_Name web_request,
             AppSpec_Namespace = ''astro-user-'' @ decimal (Req_UserID web_request),
             AppSpec_Image = Req_Image web_request,
             AppSpec_Replicas = word_of_int (Req_Replicas web_request),
             AppSpec_Port = word_of_int (Req_Port web_request),
             AppSpec_Labels = []\<rparr>)
       = Some (Errorf FmtCreateNamespaceFailed
                 (Some (StatusError (StatusReasonOther ''connection refused''))))"
    by (simp add: cluster_run adapter_run worlds decimal_7)
  have create:
    "fst (CreateApp Adapter outage_world web_request)
       = Inl (Typed \<lparr>Code = ErrAppCreateFailed,
                     Msg = ErrorText (Errorf FmtCreateNamespaceFailed
                             (Some (StatusError (StatusReasonOther ''connection refused''))))\<rparr>)"
    using service_errors
            [where ad = Adapter and w = outage_world and req = web_request,
             THEN conjunct2, THEN conjunct2, THEN conjunct2, THEN conjunct2, THEN conjunct2,
             THEN conjunct2, THEN conjunct2, THEN conjunct2, THEN conjunct2, THEN conjunct1,
             THEN conjunct2, THEN conjunct2, THEN conjunct2]
          statements lookup cluster_call
    by blast
  have orphan:
    "record_named (db (snd (CreateApp Adapter outage_world web_request))) 7 ''web''
       = Some \<lparr>ID = 1, Name = ''web'', Image = ''x:1'', Replicas = 3, Status = ''pending'',
               UserID = 7, Namespace = ''astro-user-7''\<rparr>"
    by (simp add: CreateApp_def store_run cluster_run adapter_run worlds decimal_7 Let_def)
  have load_web:
    "fst (getAppWithPermission (web_world\<lparr>cluster := unreachable_cluster\<rparr>) 1 7) = Inr web_app"
    by (simp add: getAppWithPermission_def store_run worlds)
  have query:
    "fst (adapter_GetAppStatus Adapter (cluster (web_world\<lparr>cluster := unreachable_cluster\<rparr>))
            (Name web_app) (Namespace web_app))
       = Returned (Inl (Errorf FmtGetDeploymentFailed
                          (Some (StatusError (StatusReasonOther ''timeout'')))))"
    by (simp add: cluster_run adapter_run worlds)
  have query':
    "fst (adapter_GetAppStatus Adapter unreachable_cluster ''web'' ''astro-user-7'')
       = Returned (Inl (Errorf FmtGetDeploymentFailed
                          (Some (StatusError (StatusReasonOther ''timeout'')))))"
    using query by (simp add: web_app_def)
  have reads: "carries_out 2 (db (web_world\<lparr>cluster := unreachable_cluster\<rparr>))"
    by (simp add: store_run worlds)
  have get_absorbs:
    "fst (GetApp Adapter (web_world\<lparr>cluster := unreachable_cluster\<rparr>) 1 7)
       = Returned (Inr web_app)"
    using service_errors
            [where ad = Adapter and w = "web_world\<lparr>cluster := unreachable_cluster\<rparr>"
               and appID = 1 and userID = 7,
             THEN conjunct2, THEN conjunct2, THEN conjunct2, THEN conjunct2, THEN conjunct2,
             THEN conjunct2, THEN conjunct2, THEN conjunct2, THEN conjunct2, THEN conjunct2,
             THEN conjunct2, THEN conjunct2, THEN conjunct2, THEN conjunct2,
             THEN conjunct2, THEN conjunct2]
          load_web query reads
    by blast
  have forbidden:
    "fst (getAppWithPermission web_world 1 8)
       = Inl (Typed \<lparr>Code = ErrForbidden, Msg = Message ErrForbidden\<rparr>)"
    by (simp add: getAppWithPermission_def store_run worlds)
  have get_forbidden:
    "fst (GetApp Adapter web_world 1 8)
       = Returned (Inl (Typed \<lparr>Code = ErrForbidden, Msg = Message ErrForbidden\<rparr>))"
    using service_errors
            [where ad = Adapter and w = web_world and appID = 1 and userID = 8,
             THEN conjunct2, THEN conjunct2, THEN conjunct2, THEN conjunct2, THEN conjunct2,
             THEN conjunct2, THEN conjunct2, THEN conjunct2, THEN conjunct2, THEN conjunct2,
             THEN conjunct2, THEN conjunct2, THEN conjunct2, THEN conjunct2,
             THEN conjunct1]
          forbidden
    by blast
  show ?thesis
    using load_flaky scale' update stop statements lookup' create orphan load_web query'
      get_absorbs forbidden get_forbidden
    by blast
qed

section \<open>EnsureNamespace\<close>

text \<open>
  Run alone, \<open>EnsureNamespace\<close> is its two client calls in a row. On a namespace that
  exists it changes nothing and returns no error; on one that does not, it creates it
  with the label \<open>managed-by = astro\<close>.
\<close>

lemma EnsureNamespace_two_steps:
  "EnsureNamespace_step ns (fst (EnsureNamespace_step ns AtGet c))
       (snd (EnsureNamespace_step ns AtGet c))
     = (Done (fst (ClientGoAdapter_EnsureNamespace c ns)),
        snd (ClientGoAdapter_EnsureNamespace c ns))"
  by (cases "Namespaces_Get c ns")
     (auto simp: ClientGoAdapter_EnsureNamespace_def split: sum.splits prod.splits)

lemma EnsureNamespace_present:
  "map_of (namespaces c) ns = Some ls \<Longrightarrow> api_carries_out 1 c \<Longrightarrow>
     ClientGoAdapter_EnsureNamespace c ns = (None, c\<lparr>api_script := tl (api_script c)\<rparr>)"
  by (simp add: ClientGoAdapter_EnsureNamespace_def Namespaces_Get_def api_call_result)

lemma EnsureNamespace_absent:
  assumes "map_of (namespaces c) ns = None" and "api_carries_out 2 c"
  shows "ClientGoAdapter_EnsureNamespace c ns =
           (None, c\<lparr>api_script := tl (tl (api_script c)),
                    namespaces := namespaces c @ [(ns, [(''managed-by'', ''astro'')])]\<rparr>)"
proof -
  have k: "api_carries_out 1 c" "api_carries_out 1 (c\<lparr>api_script := tl (api_script c)\<rparr>)"
    using assms(2)
    by (cases "api_script c"; cases "tl (api_script c)"; simp add: api_carries_out_def)+
  show ?thesis
    using assms(1) k
    by (simp add: ClientGoAdapter_EnsureNamespace_def Namespaces_Get_def Namespaces_Create_def
          api_call_result IsNotFound_def)
qed

text \<open>
  C6 asks that the already-exists failure of the create step be swallowed; the method
  returns the error of \<open>Create\<close> as it is. Two callers on a cluster without the
  namespace, each making its \<open>Get\<close> before either makes its \<open>Create\<close>: the first
  returns no error, the second returns the AlreadyExists error.
\<close>

theorem EnsureNamespace_race:
  "EnsureNamespace_run ''astro-user-7'' [False, True, False, True] (AtGet, AtGet, empty_cluster)
     = (Done None, Done (Some (StatusError StatusReasonAlreadyExists)),
        empty_cluster\<lparr>namespaces := [(''astro-user-7'', [(''managed-by'', ''astro'')])]\<rparr>)"
  by (simp add: cluster_run worlds)

section \<open>Logs\<close>

lemma length_tail_lines: "0 \<le> n \<Longrightarrow> length (tail_lines n ls) \<le> nat n"
  by (simp add: tail_lines_def)

lemma find_SomeD: "find P xs = Some x \<Longrightarrow> P x \<and> x \<in> set xs"
  by (induction xs) (auto split: if_splits)

lemma Stream_result:
  assumes "Pods_GetLogs_Stream c ns pn n = (Inr stream, c')"
  shows "length stream \<le> nat n
       \<and> (\<exists>p. (ns, p) \<in> set (pods c) \<and> Pod_Name p = pn \<and> stream = tail_lines n (Pod_Log p))"
proof -
  obtain q p where f: "find (\<lambda>(ns', p). ns' = ns \<and> Pod_Name p = pn)
                         (pods (snd (api_call c))) = Some (q, p)"
    and n: "0 \<le> n" and st: "stream = tail_lines n (Pod_Log p)"
    using assms
    by (auto simp: Pods_GetLogs_Stream_def split: prod.splits option.splits if_splits)
  have "pods (snd (api_call c)) = pods c"
    by (simp add: api_call_def split: list.splits)
  with find_SomeD[OF f] have "(ns, p) \<in> set (pods c)" "Pod_Name p = pn"
    by auto
  then show ?thesis using n st by (auto simp: length_tail_lines)
qed

lemma Pods_List_pods: "Pods_List c ns n = (r, c') \<Longrightarrow> pods c' = pods c"
  by (auto simp: Pods_List_def api_call_def split: prod.splits option.splits list.splits)

lemma copy_stream_text:
  "copy_stream c stream = (Inr text, c') \<Longrightarrow> text = concat (map (\<lambda>l. l @ [CHR 0x0A]) stream)"
  by (auto simp: copy_stream_def api_call_def split: prod.splits option.splits list.splits)

text \<open>
  C7, as stated, fails in the kind of the error: with no Pod listed the adapter returns
  an error built by \<open>fmt.Errorf\<close> from a plain text (no running Pod found), which is not
  a NotFound error for \<open>errors.IsNotFound\<close>, and the service returns it under the code
  \<open>ErrK8sOperation\<close>, not under a not-found code.
\<close>

theorem GetAppLogs_zero_pods_counterexample:
  "ClientGoAdapter_GetAppLogs stopped_cluster ''web'' ''astro-user-7'' 100
     = (([], Some (Errorf FmtNoRunningPodFound None)), stopped_cluster)
   \<and> \<not> IsNotFound (Errorf FmtNoRunningPodFound None)
   \<and> fst (GetAppLogs Adapter stopped_world 1 7 100)
       = ([], Some (Typed \<lparr>Code = ErrK8sOperation,
                          Msg = ErrorText (Errorf FmtNoRunningPodFound None)\<rparr>))"
  by (simp add: GetAppLogs_def getAppWithPermission_def store_run cluster_run adapter_run worlds)

text \<open>
  C7, amended. With no Pod matching the selector, the adapter's \<open>GetAppLogs\<close> returns the
  empty text and the plain error that no running Pod was found, which is not a NotFound
  error; the service returns any error of the adapter's \<open>GetAppLogs\<close> with the empty text
  under the code \<open>ErrK8sOperation\<close>. With at least one Pod listed, the adapter asks for
  the log of the first one listed, with \<open>lines\<close> as the tail length, and returns what the
  stream delivers: the last lines of that Pod's log, at most \<open>lines\<close> of them.
\<close>

theorem GetAppLogs_first_pod:
  fixes ad :: "'c AppAdapter" and w :: "'c world"
  shows "(Pods_List c namespace name = (Inr [], c') \<longrightarrow>
            ClientGoAdapter_GetAppLogs c name namespace lines
              = (([], Some (Errorf FmtNoRunningPodFound None)), c')
          \<and> \<not> IsNotFound (Errorf FmtNoRunningPodFound None))
       \<and> (\<forall>app. fst (getAppWithPermission w appID userID) = Inr app
                \<and> adapter_GetAppLogs ad (cluster w) (Name app) (Namespace app) lines
                    = ((logs, Some err), k) \<longrightarrow>
            fst (GetAppLogs ad w appID userID lines)
              = ([], Some (Typed \<lparr>Code = ErrK8sOperation, Msg = ErrorText err\<rparr>)))
       \<and> (Pods_List c namespace name = (Inr (pod # rest), c')
            \<and> Pods_GetLogs_Stream c' namespace (Pod_Name pod) lines = (Inr stream, c'')
            \<and> copy_stream c'' stream = (Inr text, c''') \<longrightarrow>
            ClientGoAdapter_GetAppLogs c name namespace lines = ((text, None), c''')
          \<and> text = concat (map (\<lambda>l. l @ [CHR 0x0A]) stream)
          \<and> length stream \<le> nat lines
          \<and> (\<exists>p. (namespace, p) \<in> set (pods c) \<and> Pod_Name p = Pod_Name pod
                \<and> stream = tail_lines lines (Pod_Log p)))"
proof (intro conjI impI allI)
  assume "Pods_List c namespace name = (Inr [], c')"
  then show "ClientGoAdapter_GetAppLogs c name namespace lines
              = (([], Some (Errorf FmtNoRunningPodFound None)), c')"
    by (simp add: ClientGoAdapter_GetAppLogs_def)
  show "\<not> IsNotFound (Errorf FmtNoRunningPodFound None)"
    by (simp add: IsNotFound_def)
next
  fix app
  assume a: "fst (getAppWithPermission w appID userID) = Inr app
                \<and> adapter_GetAppLogs ad (cluster w) (Name app) (Namespace app) lines
                    = ((logs, Some err), k)"
  obtain w1 where g: "getAppWithPermission w appID userID = (Inr app, w1)"
    using a by (cases "getAppWithPermission w appID userID") auto
  have "cluster w1 = cluster w"
    using g getAppWithPermission_cluster[of w appID userID] by simp
  then show "fst (GetAppLogs ad w appID userID lines)
              = ([], Some (Typed \<lparr>Code = ErrK8sOperation, Msg = ErrorText err\<rparr>))"
    using a g by (simp add: GetAppLogs_def NewWithMsg_def)
next
  assume a: "Pods_List c namespace name = (Inr (pod # rest), c')
            \<and> Pods_GetLogs_Stream c' namespace (Pod_Name pod) lines = (Inr stream, c'')
            \<and> copy_stream c'' stream = (Inr text, c''')"
  then show "ClientGoAdapter_GetAppLogs c name namespace lines = ((text, None), c''')"
    by (simp add: ClientGoAdapter_GetAppLogs_def)
  show "text = concat (map (\<lambda>l. l @ [CHR 0x0A]) stream)"
    using a copy_stream_text by blast
  have p: "pods c' = pods c" using a Pods_List_pods by blast
  from a Stream_result[of c' namespace "Pod_Name pod" lines stream c'']
  show "length stream \<le> nat lines"
    and "\<exists>p. (namespace, p) \<in> set (pods c) \<and> Pod_Name p = Pod_Name pod
                \<and> stream = tail_lines lines (Pod_Log p)"
    by (simp_all add: p)
qed

text \<open>
  On \<open>web_cluster\<close> the last two of the three lines of the Pod \<open>web-1\<close> come back; on
  \<open>stopped_cluster\<close>, where no Pod is listed, the error does.
\<close>

theorem GetAppLogs_first_pod_witness:
  "Pods_List web_cluster ''astro-user-7'' ''web'' = (Inr [web_pod], web_cluster)
   \<and> Pods_GetLogs_Stream web_cluster ''astro-user-7'' ''web-1'' 2
       = (Inr [''two'', ''three''], web_cluster)
   \<and> ClientGoAdapter_GetAppLogs web_cluster ''web'' ''astro-user-7'' 2
       = (([CHR ''t'', CHR ''w'', CHR ''o'', CHR 0x0A,
            CHR ''t'', CHR ''h'', CHR ''r'', CHR ''e'', CHR ''e'', CHR 0x0A], None), web_cluster)
   \<and> Pods_List stopped_cluster ''astro-user-7'' ''web'' = (Inr [], stopped_cluster)
   \<and> ClientGoAdapter_GetAppLogs stopped_cluster ''web'' ''astro-user-7'' 2
       = (([], Some (Errorf FmtNoRunningPodFound None)), stopped_cluster)
   \<and> fst (getAppWithPermission stopped_world 1 7)
       = Inr (web_app\<lparr>Replicas := 0, Status := ''stopped''\<rparr>)
   \<and> fst (GetAppLogs Adapter stopped_world 1 7 2)
       = ([], Some (Typed \<lparr>Code = ErrK8sOperation,
                          Msg = ErrorText (Errorf FmtNoRunningPodFound None)\<rparr>))"
  using
    GetAppLogs_first_pod
      [where c = web_cluster and namespace = "''astro-user-7''" and name = "''web''"
         and lines = 2 and pod = web_pod and rest = "[]" and c' = web_cluster
         and c'' = web_cluster and c''' = web_cluster and stream = "[''two'', ''three'']"
         and ad = Adapter and w = stopped_world and appID = 1 and userID = 7]
    GetAppLogs_first_pod
      [where c = stopped_cluster and namespace = "''astro-user-7''" and name = "''web''"
         and lines = 2 and c' = stopped_cluster
         and ad = Adapter and w = stopped_world and appID = 1 and userID = 7]
  by (simp add: GetAppLogs_def getAppWithPermission_def store_run cluster_run adapter_run worlds)

end
